theory Spec2Isabelle
  imports Main
begin

section \<open>Data model (models/report.ts, middleware/auth.ts)\<close>

text \<open>
  Timestamps (\<^verbatim>\<open>Date\<close>) are natural numbers (milliseconds); the clock is an argument of
  every operation that reads it. JavaScript numbers that hold ids and counters are
  modelled as \<open>int\<close>: the counter starts at 1 and only grows by 1, and every integer up
  to \<open>2^53\<close> is exact in a double. Strings are \<open>string\<close>.
\<close>

datatype Severity = Low | Medium | High | Critical

record Entry =
  entry_id :: int
  author :: string
  comment :: string
  entry_createdAt :: nat

record Attachment =
  filename :: string
  originalName :: string
  mimetype :: string
  att_size :: nat
  uploadedAt :: nat

record Report =
  report_id :: int
  title :: string
  description :: string
  severity :: Severity
  createdAt :: nat
  updatedAt :: nat
  entries :: "Entry list"
  attachments :: "Attachment list"

datatype Role = Admin | Developer

record AuthPayload =
  user_id :: string
  role :: Role

text \<open>The static fields of class \<^verbatim>\<open>ReportStore\<close>.\<close>

record ReportStore =
  reports :: "Report list"
  nextId :: int

text \<open>\<^verbatim>\<open>AuditEntry\<close> of routes/reports.ts; \<open>changes\<close> keeps the insertion order of its keys.
  Severities are strings in the source, so both members of a pair are strings.\<close>

record AuditEntry =
  reportId :: int
  userId :: string
  changes :: "(string \<times> (string \<times> string)) list"
  timestamp :: nat

text \<open>The whole mutable state of the process: the store and the module-level audit log.\<close>

record App =
  store :: ReportStore
  auditLogs :: "AuditEntry list"

definition initialApp :: App where
  "initialApp = \<lparr>store = \<lparr>reports = [], nextId = 1\<rparr>, auditLogs = []\<rparr>"

section \<open>JavaScript primitives used by the code\<close>

text \<open>
  \<^verbatim>\<open>String.prototype.toLowerCase\<close> is a function of the language's library, which folds
  every cased letter of Unicode. It is not fixed here: each operation that compares
  titles takes it as its first argument, named \<open>toLowerCase\<close>, and what is proved about
  the operation holds for every function put there.

  \<open>asciiLowerCase\<close> folds the letters A to Z and leaves every other character: on a
  string of ASCII characters it is what the library function returns. It serves only to
  evaluate the operations at concrete inputs, all of which are ASCII.
\<close>

definition lower_char :: "char \<Rightarrow> char" where
  "lower_char c =
     (case map_of (zip ''ABCDEFGHIJKLMNOPQRSTUVWXYZ'' ''abcdefghijklmnopqrstuvwxyz'') c of
        None \<Rightarrow> c
      | Some l \<Rightarrow> l)"

definition asciiLowerCase :: "string \<Rightarrow> string" where
  "asciiLowerCase s = map lower_char s"

text \<open>
  \<^verbatim>\<open>parseInt(s, 10)\<close>: leading white space is skipped, then an optional sign, then the
  longest run of decimal digits; with no digit the result is \<^verbatim>\<open>NaN\<close> (\<open>None\<close>).
\<close>

definition isWhiteSpace :: "char \<Rightarrow> bool" where
  "isWhiteSpace c = ((of_char c :: nat) \<in> {9, 10, 11, 12, 13, 32})"

definition isDigit :: "char \<Rightarrow> bool" where
  "isDigit c = (48 \<le> (of_char c :: nat) \<and> (of_char c :: nat) \<le> 57)"

definition digitsValue :: "string \<Rightarrow> int" where
  "digitsValue ds = foldl (\<lambda>a c. 10 * a + (int (of_char c) - 48)) 0 ds"

definition parseInt :: "string \<Rightarrow> int option" where
  "parseInt s =
     (let s1 = dropWhile isWhiteSpace s;
          neg = (case s1 of [] \<Rightarrow> False | c # _ \<Rightarrow> c = CHR ''-'');
          s2 = (case s1 of [] \<Rightarrow> []
                | c # cs \<Rightarrow> if c = CHR ''-'' \<or> c = CHR ''+'' then cs else s1);
          ds = takeWhile isDigit s2
      in if ds = [] then None
         else Some (if neg then - digitsValue ds else digitsValue ds))"

text \<open>A variable holding \<^verbatim>\<open>undefined\<close>, \<^verbatim>\<open>NaN\<close> or an integer, and its truthiness.\<close>

datatype jsnum = Undefined | NaN | Num int

fun truthy :: "jsnum \<Rightarrow> bool" where
  "truthy (Num n) = (n \<noteq> 0)"
| "truthy _ = False"

fun isNaN :: "jsnum \<Rightarrow> bool" where
  "isNaN (Num n) = False"
| "isNaN _ = True"

text \<open>\<^verbatim>\<open>x < 1\<close> on such a variable: a comparison with \<^verbatim>\<open>NaN\<close> is false.\<close>

fun lessThanOne :: "jsnum \<Rightarrow> bool" where
  "lessThanOne (Num n) = (n < 1)"
| "lessThanOne _ = False"

definition parsedNum :: "string \<Rightarrow> jsnum" where
  "parsedNum s = (case parseInt s of None \<Rightarrow> NaN | Some n \<Rightarrow> Num n)"

text \<open>JSON values of a request body or of a decoded token payload.\<close>

datatype json = JNull | JBool bool | JNum int | JStr string
  | JArr "json list" | JObj "(string \<times> json) list"

section \<open>ReportStore (models/report.ts)\<close>

definition getReport :: "int \<Rightarrow> ReportStore \<Rightarrow> Report option" where
  "getReport i st = find (\<lambda>report. report_id report = i) (reports st)"

definition getAllReports :: "ReportStore \<Rightarrow> Report list" where
  "getAllReports st = reports st"

text \<open>\<open>excludeId\<close> is optional and tested for truthiness: \<open>undefined\<close> and \<open>0\<close> exclude nothing.\<close>

definition titleExists :: "(string \<Rightarrow> string) \<Rightarrow> string \<Rightarrow> int option \<Rightarrow> ReportStore
    \<Rightarrow> bool" where
  "titleExists toLowerCase t excludeId st =
     list_ex (\<lambda>report. toLowerCase (title report) = toLowerCase t \<and>
                (case excludeId of
                   None \<Rightarrow> True
                 | Some e \<Rightarrow> if e \<noteq> 0 then report_id report \<noteq> e else True))
       (reports st)"

definition addReport :: "string \<Rightarrow> string \<Rightarrow> Severity \<Rightarrow> nat \<Rightarrow> ReportStore
    \<Rightarrow> Report \<times> ReportStore" where
  "addReport t d sev now st =
     (let newReport = \<lparr>report_id = nextId st, title = t, description = d, severity = sev,
                       createdAt = now, updatedAt = now, entries = [], attachments = []\<rparr>
      in (newReport, \<lparr>reports = reports st @ [newReport], nextId = nextId st + 1\<rparr>))"

text \<open>
  The source mutates the object that \<^verbatim>\<open>find\<close> returned, which is the first element of the
  array with that id: \<open>modifyReport\<close> rewrites that element in place.
\<close>

fun modifyReport :: "int \<Rightarrow> (Report \<Rightarrow> Report) \<Rightarrow> Report list \<Rightarrow> Report list" where
  "modifyReport i f [] = []"
| "modifyReport i f (r # rs) =
     (if report_id r = i then f r # rs else r # modifyReport i f rs)"

record Updates =
  u_title :: "string option"
  u_description :: "string option"
  u_severity :: "Severity option"

definition updateReport :: "int \<Rightarrow> Updates \<Rightarrow> nat \<Rightarrow> ReportStore
    \<Rightarrow> Report option \<times> ReportStore" where
  "updateReport i updates now st =
     (case getReport i st of
        None \<Rightarrow> (None, st)
      | Some report \<Rightarrow>
          (let r1 = (case u_title updates of None \<Rightarrow> report
                     | Some t \<Rightarrow> report\<lparr>title := t\<rparr>);
               r2 = (case u_description updates of None \<Rightarrow> r1
                     | Some d \<Rightarrow> r1\<lparr>description := d\<rparr>);
               r3 = (case u_severity updates of None \<Rightarrow> r2
                     | Some sv \<Rightarrow> r2\<lparr>severity := sv\<rparr>);
               r4 = r3\<lparr>updatedAt := now\<rparr>
           in (Some r4, st\<lparr>reports := modifyReport i (\<lambda>_. r4) (reports st)\<rparr>)))"

definition addAttachment :: "int \<Rightarrow> Attachment \<Rightarrow> nat \<Rightarrow> ReportStore
    \<Rightarrow> Attachment option \<times> ReportStore" where
  "addAttachment i attachment now st =
     (case getReport i st of
        None \<Rightarrow> (None, st)
      | Some report \<Rightarrow>
          (Some attachment,
           st\<lparr>reports := modifyReport i
                 (\<lambda>r. r\<lparr>attachments := attachments r @ [attachment], updatedAt := now\<rparr>)
                 (reports st)\<rparr>))"

text \<open>\<^verbatim>\<open>findIndex\<close> followed by \<^verbatim>\<open>splice(index, 1)\<close>: the first report with the id goes.\<close>

fun removeFirst :: "int \<Rightarrow> Report list \<Rightarrow> Report list" where
  "removeFirst i [] = []"
| "removeFirst i (r # rs) = (if report_id r = i then rs else r # removeFirst i rs)"

definition deleteReport :: "int \<Rightarrow> ReportStore \<Rightarrow> bool \<times> ReportStore" where
  "deleteReport i st =
     (if list_ex (\<lambda>report. report_id report = i) (reports st)
      then (True, st\<lparr>reports := removeFirst i (reports st)\<rparr>)
      else (False, st))"

section \<open>Request validation (the Zod schemas of routes/reports.ts)\<close>

definition severityOf :: "string \<Rightarrow> Severity option" where
  "severityOf s =
     (if s = ''low'' then Some Low else if s = ''medium'' then Some Medium
      else if s = ''high'' then Some High else if s = ''critical'' then Some Critical
      else None)"

fun severityName :: "Severity \<Rightarrow> string" where
  "severityName Low = ''low''"
| "severityName Medium = ''medium''"
| "severityName High = ''high''"
| "severityName Critical = ''critical''"

fun severityScoreMap :: "Severity \<Rightarrow> nat" where
  "severityScoreMap Low = 1"
| "severityScoreMap Medium = 2"
| "severityScoreMap High = 3"
| "severityScoreMap Critical = 4"

text \<open>
  A field of a schema applied to the value found under its key (\<open>None\<close> when the key
  is absent). The outer \<open>option\<close> of the result is the verdict: \<open>None\<close> is a validation
  issue. \<^verbatim>\<open>z.string().min(1)\<close> and \<^verbatim>\<open>SeverityEnum\<close>, both \<^verbatim>\<open>.optional()\<close>:
\<close>

fun optionalString1 :: "json option \<Rightarrow> string option option" where
  "optionalString1 None = Some None"
| "optionalString1 (Some (JStr s)) = (if 1 \<le> length s then Some (Some s) else None)"
| "optionalString1 (Some _) = None"

fun optionalSeverity :: "json option \<Rightarrow> Severity option option" where
  "optionalSeverity None = Some None"
| "optionalSeverity (Some (JStr s)) =
     (case severityOf s of None \<Rightarrow> None | Some sv \<Rightarrow> Some (Some sv))"
| "optionalSeverity (Some _) = None"

text \<open>\<^verbatim>\<open>.strict()\<close>: a key outside the schema is an issue.\<close>

definition strictKeys :: "string list \<Rightarrow> (string \<times> json) list \<Rightarrow> bool" where
  "strictKeys allowed kvs = list_all (\<lambda>(k, v). k \<in> set allowed) kvs"

definition UpdateReportSchema :: "(string \<times> json) list \<Rightarrow> Updates option" where
  "UpdateReportSchema kvs =
     (if \<not> strictKeys [''title'', ''description'', ''severity''] kvs then None
      else case (optionalString1 (map_of kvs ''title''),
                 optionalString1 (map_of kvs ''description''),
                 optionalSeverity (map_of kvs ''severity'')) of
             (Some t, Some d, Some sv) \<Rightarrow>
               Some \<lparr>u_title = t, u_description = d, u_severity = sv\<rparr>
           | _ \<Rightarrow> None)"

record NewReport =
  n_title :: string
  n_description :: string
  n_severity :: Severity

definition NewReportSchema :: "(string \<times> json) list \<Rightarrow> NewReport option" where
  "NewReportSchema kvs =
     (if \<not> strictKeys [''title'', ''description'', ''severity''] kvs then None
      else case (optionalString1 (map_of kvs ''title''),
                 optionalString1 (map_of kvs ''description''),
                 optionalSeverity (map_of kvs ''severity'')) of
             (Some (Some t), Some (Some d), Some sv) \<Rightarrow>
               Some \<lparr>n_title = t, n_description = d,
                     n_severity = (case sv of None \<Rightarrow> Low | Some x \<Rightarrow> x)\<rparr>
           | _ \<Rightarrow> None)"

section \<open>Requests and responses\<close>

text \<open>
  What a handler reads of an Express request. \<open>body\<close> is the parsed JSON object
  (\<open>None\<close> when there is none); \<open>user\<close> is what \<^verbatim>\<open>requireAuth\<close> attached; \<open>file\<close> is the
  upload that multer stored. Query parameters are strings.
\<close>

record UploadedFile =
  f_filename :: string
  f_originalname :: string
  f_mimetype :: string
  f_size :: nat

record Request =
  param_id :: string
  param_filename :: string
  query :: "(string \<times> string) list"
  body :: "(string \<times> json) list option"
  user :: "AuthPayload option"
  req_file :: "UploadedFile option"

record Summary =
  s_id :: int
  s_title :: string
  s_description :: string
  s_severity :: Severity
  s_createdAt :: nat
  s_updatedAt :: nat
  s_entryCount :: nat
  s_severityScore :: nat

text \<open>
  A response is its status and its JSON body: an error envelope (the \<^verbatim>\<open>details\<close> of a
  validation failure are not modelled), a report summary, a report with its entries, the
  download URL of an upload (its report id, file name and token), or a file that is sent
  (content type, original name, file name).
\<close>

datatype Response =
    Error nat string
  | SummaryJson nat Summary
  | EntriesJson nat Summary "Entry list"
  | DownloadUrl nat int string string
  | SendFile string string string

fun status :: "Response \<Rightarrow> nat" where
  "status (Error n m) = n"
| "status (SummaryJson n s) = n"
| "status (EntriesJson n s es) = n"
| "status (DownloadUrl n i f t) = n"
| "status (SendFile c n f) = 200"

definition summaryOf :: "Report \<Rightarrow> Summary" where
  "summaryOf report =
     \<lparr>s_id = report_id report, s_title = title report, s_description = description report,
      s_severity = severity report, s_createdAt = createdAt report,
      s_updatedAt = updatedAt report, s_entryCount = length (entries report),
      s_severityScore = severityScoreMap (severity report)\<rparr>"

section \<open>Route handlers (routes/reports.ts)\<close>

subsection \<open>GET /reports/:id\<close>

text \<open>
  \<^verbatim>\<open>Array.prototype.sort\<close> is stable, and so is \<open>sort_key\<close>; the descending comparator
  orders by the negated time.
\<close>

definition sortEntries :: "bool \<Rightarrow> Entry list \<Rightarrow> Entry list" where
  "sortEntries asc es =
     (if asc then sort_key (\<lambda>e. int (entry_createdAt e)) es
      else sort_key (\<lambda>e. - int (entry_createdAt e)) es)"

text \<open>\<^verbatim>\<open>req.query.x ? parseInt(req.query.x, 10) : undefined\<close>: the empty string is falsy.\<close>

definition queryNum :: "(string \<times> string) list \<Rightarrow> string \<Rightarrow> jsnum" where
  "queryNum q k =
     (case map_of q k of
        None \<Rightarrow> Undefined
      | Some s \<Rightarrow> if s = [] then Undefined else parsedNum s)"

text \<open>
  Lines 69 to 79: the two defaults, then the validity test under \<^verbatim>\<open>if (page && pageSize)\<close>.
  The result is \<open>None\<close> for the 400 response and the page of entries otherwise.
\<close>

definition paginate :: "jsnum \<Rightarrow> jsnum \<Rightarrow> Entry list \<Rightarrow> Entry list option" where
  "paginate page0 pageSize0 es =
     (let pageSize = (if truthy page0 \<and> \<not> truthy pageSize0 then Num 10 else pageSize0);
          page = (if \<not> truthy page0 \<and> truthy pageSize then Num 1 else page0)
      in if truthy page \<and> truthy pageSize
         then (if isNaN page \<or> isNaN pageSize \<or> lessThanOne page \<or> lessThanOne pageSize
               then None
               else (case (page, pageSize) of
                       (Num p, Num ps) \<Rightarrow>
                         Some (take (nat ps) (drop (nat ((p - 1) * ps)) es))
                     | _ \<Rightarrow> Some es))
         else Some es)"

definition GET_report :: "Request \<Rightarrow> App \<Rightarrow> Response" where
  "GET_report req app =
     (case parseInt (param_id req) of
        None \<Rightarrow> Error 400 ''Invalid report ID format''
      | Some i \<Rightarrow>
          (case getReport i (store app) of
             None \<Rightarrow> Error 404 ''Report not found''
           | Some report \<Rightarrow>
               if map_of (query req) ''include'' = Some ''entries''
               then (case paginate (queryNum (query req) ''page'')
                            (queryNum (query req) ''pageSize'')
                            (sortEntries (map_of (query req) ''order'' = Some ''asc'')
                               (entries report)) of
                       None \<Rightarrow> Error 400 ''Invalid pagination parameters''
                     | Some es \<Rightarrow> EntriesJson 200 (summaryOf report) es)
               else SummaryJson 200 (summaryOf report)))"

subsection \<open>POST /reports\<close>

definition POST_reports :: "(string \<Rightarrow> string) \<Rightarrow> Request \<Rightarrow> nat \<Rightarrow> App
    \<Rightarrow> Response \<times> App" where
  "POST_reports toLowerCase req now app =
     (case (case body req of None \<Rightarrow> None | Some kvs \<Rightarrow> NewReportSchema kvs) of
        None \<Rightarrow> (Error 400 ''Invalid request data'', app)
      | Some data \<Rightarrow>
          if titleExists toLowerCase (n_title data) None (store app)
          then (Error 409 ''A report with this title already exists'', app)
          else (case addReport (n_title data) (n_description data) (n_severity data) now
                       (store app) of
                  (newReport, st) \<Rightarrow>
                    (SummaryJson 201 ((summaryOf newReport)\<lparr>s_entryCount := 0\<rparr>),
                     app\<lparr>store := st\<rparr>)))"

subsection \<open>PUT /reports/:id\<close>

text \<open>Lines 177 to 192: the diff of the supplied fields against the report, and the
  report with the differing fields assigned.\<close>

definition diffTitle :: "Updates \<Rightarrow> Report \<Rightarrow> (string \<times> (string \<times> string)) list" where
  "diffTitle updates report =
     (case u_title updates of
        None \<Rightarrow> []
      | Some t \<Rightarrow> if t \<noteq> title report then [(''title'', (title report, t))] else [])"

definition diffDescription :: "Updates \<Rightarrow> Report \<Rightarrow> (string \<times> (string \<times> string)) list" where
  "diffDescription updates report =
     (case u_description updates of
        None \<Rightarrow> []
      | Some d \<Rightarrow> if d \<noteq> description report
                  then [(''description'', (description report, d))] else [])"

definition diffSeverity :: "Updates \<Rightarrow> Report \<Rightarrow> (string \<times> (string \<times> string)) list" where
  "diffSeverity updates report =
     (case u_severity updates of
        None \<Rightarrow> []
      | Some sv \<Rightarrow> if sv \<noteq> severity report
                   then [(''severity'', (severityName (severity report), severityName sv))]
                   else [])"

definition computeChanges :: "Updates \<Rightarrow> Report \<Rightarrow> (string \<times> (string \<times> string)) list" where
  "computeChanges updates report =
     diffTitle updates report @ diffDescription updates report @ diffSeverity updates report"

definition applyUpdates :: "Updates \<Rightarrow> Report \<Rightarrow> Report" where
  "applyUpdates updates report =
     (let r1 = (case u_title updates of None \<Rightarrow> report
                | Some t \<Rightarrow> if t \<noteq> title report then report\<lparr>title := t\<rparr> else report);
          r2 = (case u_description updates of None \<Rightarrow> r1
                | Some d \<Rightarrow> if d \<noteq> description r1 then r1\<lparr>description := d\<rparr> else r1);
          r3 = (case u_severity updates of None \<Rightarrow> r2
                | Some sv \<Rightarrow> if sv \<noteq> severity r2 then r2\<lparr>severity := sv\<rparr> else r2)
      in r3)"

text \<open>The test of line 169: \<^verbatim>\<open>updates.title && ReportStore.titleExists(updates.title, id)\<close>.\<close>

definition titleConflict :: "(string \<Rightarrow> string) \<Rightarrow> Updates \<Rightarrow> int \<Rightarrow> ReportStore
    \<Rightarrow> bool" where
  "titleConflict toLowerCase u i st =
     (case u_title u of
        None \<Rightarrow> False
      | Some t \<Rightarrow> t \<noteq> [] \<and> titleExists toLowerCase t (Some i) st)"

text \<open>The test of line 173: \<^verbatim>\<open>req.user && req.user.role !== 'admin'\<close>.\<close>

definition notAdmin :: "AuthPayload option \<Rightarrow> bool" where
  "notAdmin u = (case u of None \<Rightarrow> False | Some a \<Rightarrow> role a \<noteq> Admin)"

definition auditUserId :: "AuthPayload option \<Rightarrow> string" where
  "auditUserId u = (case u of None \<Rightarrow> ''unknown'' | Some a \<Rightarrow> user_id a)"

definition PUT_report :: "(string \<Rightarrow> string) \<Rightarrow> Request \<Rightarrow> nat \<Rightarrow> App
    \<Rightarrow> Response \<times> App" where
  "PUT_report toLowerCase req now app =
     (case parseInt (param_id req) of
        None \<Rightarrow> (Error 400 ''Invalid report ID format'', app)
      | Some i \<Rightarrow>
          (case body req of
             None \<Rightarrow> (Error 400 ''No update data provided'', app)
           | Some kvs \<Rightarrow>
               if length kvs = 0 then (Error 400 ''No update data provided'', app)
               else (case UpdateReportSchema kvs of
                  None \<Rightarrow> (Error 400 ''Invalid update data'', app)
                | Some updates \<Rightarrow>
                    (case getReport i (store app) of
                       None \<Rightarrow> (Error 404 ''Report not found'', app)
                     | Some report \<Rightarrow>
                         if titleConflict toLowerCase updates i (store app)
                         then (Error 409 ''Another report with this title already exists'',
                               app)
                         else if u_severity updates = Some Critical \<and> notAdmin (user req)
                         then (Error 403 ''Only admins can escalate severity to critical'',
                               app)
                         else (let changes = computeChanges updates report;
                                   report1 = applyUpdates updates report
                               in if 0 < length changes
                                  then (let report2 = report1\<lparr>updatedAt := now\<rparr>
                                        in (SummaryJson 200 (summaryOf report2),
                                            \<lparr>store = (store app)\<lparr>reports :=
                                                 modifyReport i (\<lambda>_. report2)
                                                   (reports (store app))\<rparr>,
                                             auditLogs = auditLogs app @
                                               [\<lparr>reportId = report_id report2,
                                                 userId = auditUserId (user req),
                                                 changes = changes,
                                                 timestamp = now\<rparr>]\<rparr>))
                                  else (SummaryJson 200 (summaryOf report1), app))))))"

text \<open>The state that the handler leaves when the diff is not empty (lines 193 to 195),
  named for the proofs.\<close>

definition committed :: "Request \<Rightarrow> nat \<Rightarrow> App \<Rightarrow> int \<Rightarrow> Updates \<Rightarrow> Report \<Rightarrow> App" where
  "committed req now app i u r =
     \<lparr>store = (store app)\<lparr>reports :=
         modifyReport i (\<lambda>_. (applyUpdates u r)\<lparr>updatedAt := now\<rparr>) (reports (store app))\<rparr>,
      auditLogs = auditLogs app @
        [\<lparr>reportId = report_id r, userId = auditUserId (user req),
          changes = computeChanges u r, timestamp = now\<rparr>]\<rparr>"

subsection \<open>POST /reports/:id/attachment\<close>

text \<open>
  \<^verbatim>\<open>jwt.sign\<close> belongs to a library: the handler takes the signing function, from the
  claims \<open>(reportId, file)\<close> to the token, as its argument \<open>sign\<close>. Removing the
  uploaded file from disk on the error paths is outside the state modelled here.
\<close>

definition POST_attachment :: "(int \<Rightarrow> string \<Rightarrow> string) \<Rightarrow> Request \<Rightarrow> nat \<Rightarrow> App
    \<Rightarrow> Response \<times> App" where
  "POST_attachment sign req now app =
     (case parseInt (param_id req) of
        None \<Rightarrow> (Error 400 ''Invalid report ID format'', app)
      | Some i \<Rightarrow>
          (case getReport i (store app) of
             None \<Rightarrow> (Error 404 ''Report not found'', app)
           | Some report \<Rightarrow>
               (case req_file req of
                  None \<Rightarrow> (Error 400 ''No file uploaded'', app)
                | Some f \<Rightarrow>
                    (let attachment = \<lparr>filename = f_filename f,
                                        originalName = f_originalname f,
                                        mimetype = f_mimetype f, att_size = f_size f,
                                        uploadedAt = now\<rparr>
                     in (DownloadUrl 200 i (filename attachment)
                           (sign i (filename attachment)),
                         app\<lparr>store := snd (addAttachment i attachment now (store app))\<rparr>)))))"

subsection \<open>GET /reports/:id/attachment/:filename\<close>

text \<open>
  \<^verbatim>\<open>jwt.verify\<close> is the handler's argument \<open>verify\<close>: on the token of the request it
  gives the decoded payload, or \<open>None\<close> where the library throws (bad signature,
  malformed token, expired token). The token is the query parameter \<^verbatim>\<open>token\<close>; the
  empty string is falsy. The decoded claims are compared with \<^verbatim>\<open>!==\<close>, so a claim that is
  missing or of another type differs from the path.
\<close>

definition GET_attachment :: "(string \<Rightarrow> (string \<times> json) list option) \<Rightarrow> Request \<Rightarrow> App
    \<Rightarrow> Response" where
  "GET_attachment verify req app =
     (case parseInt (param_id req) of
        None \<Rightarrow> Error 400 ''Invalid request''
      | Some i \<Rightarrow>
          if param_filename req = [] then Error 400 ''Invalid request''
          else (case map_of (query req) ''token'' of
             None \<Rightarrow> Error 401 ''Missing access token''
           | Some token \<Rightarrow>
               if token = [] then Error 401 ''Missing access token''
               else (case verify token of
                  None \<Rightarrow> Error 401 ''Unauthorized or expired token''
                | Some decoded \<Rightarrow>
                    if map_of decoded ''reportId'' \<noteq> Some (JNum i) \<or>
                       map_of decoded ''file'' \<noteq> Some (JStr (param_filename req))
                    then Error 403 ''Invalid token for this file''
                    else (case getReport i (store app) of
                       None \<Rightarrow> Error 404 ''File not found''
                     | Some report \<Rightarrow>
                         (case find (\<lambda>att. filename att = param_filename req)
                                 (attachments report) of
                            None \<Rightarrow> Error 404 ''File not found''
                          | Some attachment \<Rightarrow>
                              SendFile (mimetype attachment) (originalName attachment)
                                (param_filename req))))))"

section \<open>Reachable states and the invariant of the store\<close>

text \<open>
  The states the process can be in: the initial one, and those that a mutating route
  handler or the store's \<^verbatim>\<open>deleteReport\<close> leaves behind. The two GET handlers change nothing.
  \<^verbatim>\<open>ReportStore.updateReport\<close> is called by no route.
\<close>

inductive reachable :: "(string \<Rightarrow> string) \<Rightarrow> App \<Rightarrow> bool"
  for toLowerCase :: "string \<Rightarrow> string" where
  initial: "reachable toLowerCase initialApp"
| create: "reachable toLowerCase app \<Longrightarrow>
     reachable toLowerCase (snd (POST_reports toLowerCase req now app))"
| update: "reachable toLowerCase app \<Longrightarrow>
     reachable toLowerCase (snd (PUT_report toLowerCase req now app))"
| attach: "reachable toLowerCase app \<Longrightarrow>
     reachable toLowerCase (snd (POST_attachment sign req now app))"
| delete: "reachable toLowerCase app \<Longrightarrow>
     reachable toLowerCase (app\<lparr>store := snd (deleteReport i (store app))\<rparr>)"

definition lowerTitles :: "(string \<Rightarrow> string) \<Rightarrow> Report list \<Rightarrow> string list" where
  "lowerTitles toLowerCase rs = map (\<lambda>r. toLowerCase (title r)) rs"

definition storeInv :: "(string \<Rightarrow> string) \<Rightarrow> ReportStore \<Rightarrow> bool" where
  "storeInv toLowerCase st =
     (1 \<le> nextId st
      \<and> list_all (\<lambda>r. 1 \<le> report_id r \<and> report_id r < nextId st) (reports st)
      \<and> distinct (map report_id (reports st))
      \<and> distinct (lowerTitles toLowerCase (reports st)))"

section \<open>Sequences of create and delete on the store\<close>

datatype StoreOp = Create string string Severity nat | Delete int

text \<open>Runs the operations in order and collects the ids that the creates assigned.\<close>

fun runOps :: "StoreOp list \<Rightarrow> ReportStore \<Rightarrow> int list \<times> ReportStore" where
  "runOps [] st = ([], st)"
| "runOps (Create t d sv now # ops) st =
     (case addReport t d sv now st of
        (newReport, st1) \<Rightarrow>
          (case runOps ops st1 of (ids, st2) \<Rightarrow> (report_id newReport # ids, st2)))"
| "runOps (Delete i # ops) st = runOps ops (snd (deleteReport i st))"

section \<open>The store with references made explicit\<close>

text \<open>
  \<^verbatim>\<open>getReport\<close> returns the element that \<^verbatim>\<open>find\<close> selected and \<^verbatim>\<open>getAllReports\<close> returns
  \<^verbatim>\<open>this.reports\<close>: in JavaScript both are references. Here objects live in a heap of
  cells; the static field \<^verbatim>\<open>reports\<close> holds the address of an array object, whose elements
  are addresses of report objects.
\<close>

type_synonym ref = nat

datatype obj = ReportObj Report | ArrayObj "ref list"

record Heap =
  cells :: "ref \<Rightarrow> obj option"
  reportsRef :: ref

definition arrayOf :: "Heap \<Rightarrow> ref list" where
  "arrayOf h = (case cells h (reportsRef h) of Some (ArrayObj as) \<Rightarrow> as | _ \<Rightarrow> [])"

definition reportAt :: "Heap \<Rightarrow> ref \<Rightarrow> Report option" where
  "reportAt h a = (case cells h a of Some (ReportObj r) \<Rightarrow> Some r | _ \<Rightarrow> None)"

definition hasId :: "Heap \<Rightarrow> int \<Rightarrow> ref \<Rightarrow> bool" where
  "hasId h i a = (case reportAt h a of None \<Rightarrow> False | Some r \<Rightarrow> report_id r = i)"

definition getReportRef :: "int \<Rightarrow> Heap \<Rightarrow> ref option" where
  "getReportRef i h = find (hasId h i) (arrayOf h)"

definition getAllReportsRef :: "Heap \<Rightarrow> ref" where
  "getAllReportsRef h = reportsRef h"

text \<open>What a later operation reads when it asks for report \<open>i\<close>, and for all reports.\<close>

definition lookupReport :: "int \<Rightarrow> Heap \<Rightarrow> Report option" where
  "lookupReport i h = (case getReportRef i h of None \<Rightarrow> None | Some a \<Rightarrow> reportAt h a)"

definition reportsOf :: "Heap \<Rightarrow> Report list" where
  "reportsOf h = List.map_filter (reportAt h) (arrayOf h)"

text \<open>A caller's assignment to fields of a report through a reference, and a caller's
  assignment to the contents of an array through a reference (such as
  \<^verbatim>\<open>arr.length = 0\<close>).\<close>

definition mutateReport :: "ref \<Rightarrow> (Report \<Rightarrow> Report) \<Rightarrow> Heap \<Rightarrow> Heap" where
  "mutateReport a f h =
     (case cells h a of
        Some (ReportObj r) \<Rightarrow> h\<lparr>cells := (cells h)(a \<mapsto> ReportObj (f r))\<rparr>
      | _ \<Rightarrow> h)"

definition mutateArray :: "ref \<Rightarrow> (ref list \<Rightarrow> ref list) \<Rightarrow> Heap \<Rightarrow> Heap" where
  "mutateArray a f h =
     (case cells h a of
        Some (ArrayObj as) \<Rightarrow> h\<lparr>cells := (cells h)(a \<mapsto> ArrayObj (f as))\<rparr>
      | _ \<Rightarrow> h)"

section \<open>Concrete states and requests\<close>

text \<open>
  The inputs at which the operations are evaluated. Every title among them is ASCII, so
  the states are built, and the handlers run, with \<open>asciiLowerCase\<close> for \<open>toLowerCase\<close>.
\<close>

definition emptyPut :: Request where
  "emptyPut = \<lparr>param_id = ''42'', param_filename = [], query = [], body = Some [],
     user = Some \<lparr>user_id = ''dev1'', role = Developer\<rparr>, req_file = None\<rparr>"

definition createRequest :: "string \<Rightarrow> string \<Rightarrow> string \<Rightarrow> Request" where
  "createRequest t d sv =
     \<lparr>param_id = [], param_filename = [], query = [],
      body = Some [(''title'', JStr t), (''description'', JStr d), (''severity'', JStr sv)],
      user = Some \<lparr>user_id = ''dev1'', role = Developer\<rparr>, req_file = None\<rparr>"

definition putRequest :: "string \<Rightarrow> Role \<Rightarrow> (string \<times> json) list \<Rightarrow> Request" where
  "putRequest i ro kvs =
     \<lparr>param_id = i, param_filename = [], query = [], body = Some kvs,
      user = Some \<lparr>user_id = ''u1'', role = ro\<rparr>, req_file = None\<rparr>"

definition oneLow :: App where
  "oneLow =
     snd (POST_reports asciiLowerCase (createRequest ''Crash'' ''It crashes'' ''low'') 5
            initialApp)"

definition twoLow :: App where
  "twoLow =
     snd (POST_reports asciiLowerCase (createRequest ''Freeze'' ''It freezes'' ''low'') 6
            oneLow)"

definition oneCritical :: App where
  "oneCritical =
     snd (POST_reports asciiLowerCase (createRequest ''Outage'' ''All down'' ''critical'') 5
            initialApp)"

definition demoSign :: "int \<Rightarrow> string \<Rightarrow> string" where
  "demoSign i f = ''tok:'' @ f"

definition demoVerify :: "string \<Rightarrow> (string \<times> json) list option" where
  "demoVerify tok =
     (if tok = ''tok:A''
      then Some [(''reportId'', JNum 1), (''file'', JStr ''A''), (''exp'', JNum 900009)]
      else if tok = ''session''
      then Some [(''id'', JStr ''dev1''), (''role'', JStr ''developer'')]
      else None)"

definition uploadRequest :: "string \<Rightarrow> string \<Rightarrow> Request" where
  "uploadRequest i f =
     \<lparr>param_id = i, param_filename = [], query = [], body = None,
      user = Some \<lparr>user_id = ''dev1'', role = Developer\<rparr>,
      req_file = Some \<lparr>f_filename = f, f_originalname = ''log.txt'',
                       f_mimetype = ''text/plain'', f_size = 12\<rparr>\<rparr>"

definition downloadRequest :: "string \<Rightarrow> string \<Rightarrow> string \<Rightarrow> Request" where
  "downloadRequest i f tok =
     \<lparr>param_id = i, param_filename = f, query = [(''token'', tok)], body = None,
      user = None, req_file = None\<rparr>"

definition getRequest :: "string \<Rightarrow> (string \<times> string) list \<Rightarrow> Request" where
  "getRequest i q =
     \<lparr>param_id = i, param_filename = [], query = q, body = None,
      user = Some \<lparr>user_id = ''dev1'', role = Developer\<rparr>, req_file = None\<rparr>"

definition oneAttachment :: App where
  "oneAttachment = snd (POST_attachment demoSign (uploadRequest ''1'' ''A'') 9 oneLow)"

definition threeEntries :: "Entry list" where
  "threeEntries =
     [\<lparr>entry_id = 1, author = ''dev1'', comment = ''first'', entry_createdAt = 10\<rparr>,
      \<lparr>entry_id = 2, author = ''dev1'', comment = ''second'', entry_createdAt = 20\<rparr>,
      \<lparr>entry_id = 3, author = ''dev2'', comment = ''third'', entry_createdAt = 30\<rparr>]"

definition crashReport :: Report where
  "crashReport = \<lparr>report_id = 1, title = ''Crash'', description = ''It crashes'',
     severity = Low, createdAt = 5, updatedAt = 5, entries = [], attachments = []\<rparr>"

definition oneLowHeap :: Heap where
  "oneLowHeap = \<lparr>cells = [0 \<mapsto> ArrayObj [1], 1 \<mapsto> ReportObj crashReport], reportsRef = 0\<rparr>"

section \<open>Evaluation of the primitives\<close>

lemmas parse_defs = parseInt_def isWhiteSpace_def isDigit_def digitsValue_def

section \<open>Facts about the store\<close>

lemma getReport_Some:
  "getReport i st = Some r \<Longrightarrow> r \<in> set (reports st) \<and> report_id r = i"
  by (auto simp: getReport_def find_Some_iff)

lemma find_modifyReport:
  "report_id (f r) = i \<Longrightarrow> find (\<lambda>x. report_id x = i) rs = Some r \<Longrightarrow>
   find (\<lambda>x. report_id x = i) (modifyReport i f rs) = Some (f r)"
  by (induction rs) (auto split: if_splits)

lemma set_modifyReport:
  "set (modifyReport i (\<lambda>_. r') rs) \<subseteq> insert r' (set rs)"
  by (induction rs) auto

lemma map_id_modifyReport:
  "(\<And>x. report_id (f x) = report_id x) \<Longrightarrow>
   map report_id (modifyReport i f rs) = map report_id rs"
  by (induction rs) auto

lemma lowerTitles_modifyReport:
  "(\<And>x. title (f x) = title x) \<Longrightarrow> lowerTitles toLowerCase (modifyReport i f rs) = lowerTitles toLowerCase rs"
  by (induction rs) (auto simp: lowerTitles_def)

lemma list_all_modifyReport:
  "list_all P rs \<Longrightarrow> (\<And>x. P x \<Longrightarrow> P (f x)) \<Longrightarrow> list_all P (modifyReport i f rs)"
  by (induction rs) auto

lemma distinct_lowerTitles_modifyReport:
  "distinct (map report_id rs) \<Longrightarrow> distinct (lowerTitles toLowerCase rs) \<Longrightarrow>
   \<forall>x\<in>set rs. report_id x \<noteq> i \<longrightarrow> toLowerCase (title x) \<noteq> toLowerCase (title r') \<Longrightarrow>
   distinct (lowerTitles toLowerCase (modifyReport i (\<lambda>_. r') rs))"
proof (induction rs)
  case Nil
  then show ?case by (simp add: lowerTitles_def)
next
  case (Cons r rs)
  show ?case
  proof (cases "report_id r = i")
    case True
    from Cons.prems have "report_id r \<notin> report_id ` set rs" by simp
    with True have "\<forall>x\<in>set rs. report_id x \<noteq> i" by blast
    with Cons.prems have "toLowerCase (title r') \<notin> set (lowerTitles toLowerCase rs)"
      by (auto simp: lowerTitles_def)
    with True Cons.prems show ?thesis by (simp add: lowerTitles_def)
  next
    case False
    have sub: "set (modifyReport i (\<lambda>_. r') rs) \<subseteq> insert r' (set rs)"
      by (rule set_modifyReport)
    from Cons.prems False have a: "toLowerCase (title r) \<noteq> toLowerCase (title r')" by simp
    from Cons.prems have b: "toLowerCase (title r) \<notin> set (lowerTitles toLowerCase rs)"
      by (simp add: lowerTitles_def)
    from a b sub have "toLowerCase (title r) \<notin> set (lowerTitles toLowerCase (modifyReport i (\<lambda>_. r') rs))"
      by (auto simp: lowerTitles_def)
    moreover from Cons have "distinct (lowerTitles toLowerCase (modifyReport i (\<lambda>_. r') rs))"
      by (simp add: lowerTitles_def)
    ultimately show ?thesis using False by (simp add: lowerTitles_def)
  qed
qed

lemma set_removeFirst: "set (removeFirst i rs) \<subseteq> set rs"
  by (induction rs) auto

lemma distinct_map_removeFirst:
  "distinct (map f rs) \<Longrightarrow> distinct (map f (removeFirst i rs))"
proof (induction rs)
  case Nil
  then show ?case by simp
next
  case (Cons r rs)
  then show ?case using set_removeFirst [of i rs] by auto
qed

lemma list_all_removeFirst: "list_all P rs \<Longrightarrow> list_all P (removeFirst i rs)"
  using set_removeFirst [of i rs] by (auto simp: list_all_iff)

lemma titleExists_iff:
  "titleExists toLowerCase t e st \<longleftrightarrow>
   (\<exists>r\<in>set (reports st). toLowerCase (title r) = toLowerCase t \<and>
       (case e of None \<Rightarrow> True | Some x \<Rightarrow> x \<noteq> 0 \<longrightarrow> report_id r \<noteq> x))"
  by (auto simp: titleExists_def list_ex_iff split: option.splits)

lemma storeInv_addReport:
  "storeInv toLowerCase st \<Longrightarrow> \<not> titleExists toLowerCase t None st \<Longrightarrow> storeInv toLowerCase (snd (addReport t d sv now st))"
  by (auto simp: storeInv_def addReport_def Let_def titleExists_iff lowerTitles_def list_all_iff)

lemma storeInv_deleteReport:
  "storeInv toLowerCase st \<Longrightarrow> storeInv toLowerCase (snd (deleteReport i st))"
  by (auto simp: storeInv_def deleteReport_def lowerTitles_def
      intro: distinct_map_removeFirst list_all_removeFirst)

lemma storeInv_addAttachment:
  "storeInv toLowerCase st \<Longrightarrow> storeInv toLowerCase (snd (addAttachment i att now st))"
  by (auto simp: storeInv_def addAttachment_def lowerTitles_modifyReport map_id_modifyReport
      intro: list_all_modifyReport split: option.splits)

section \<open>Facts about the update handler and the invariant\<close>

lemma applyUpdates_id [simp]: "report_id (applyUpdates u r) = report_id r"
  by (simp add: applyUpdates_def Let_def split: option.splits)

lemma applyUpdates_title:
  "title (applyUpdates u r) = (case u_title u of None \<Rightarrow> title r | Some t \<Rightarrow> t)"
  by (simp add: applyUpdates_def Let_def split: option.splits)

lemma applyUpdates_severity:
  "severity (applyUpdates u r) = (case u_severity u of None \<Rightarrow> severity r | Some sv \<Rightarrow> sv)"
  by (simp add: applyUpdates_def Let_def split: option.splits)

lemma applyUpdates_no_changes:
  "computeChanges u r = [] \<Longrightarrow> applyUpdates u r = r"
  by (auto simp: computeChanges_def diffTitle_def diffDescription_def diffSeverity_def
      applyUpdates_def Let_def split: option.splits if_splits)

lemma PUT_report_passed:
  assumes "parseInt (param_id req) = Some i" "body req = Some kvs" "kvs \<noteq> []"
    "UpdateReportSchema kvs = Some u" "getReport i (store app) = Some r"
    "\<not> titleConflict toLowerCase u i (store app)"
    "\<not> (u_severity u = Some Critical \<and> notAdmin (user req))"
  shows "PUT_report toLowerCase req now app =
     (if computeChanges u r \<noteq> []
      then (SummaryJson 200 (summaryOf ((applyUpdates u r)\<lparr>updatedAt := now\<rparr>)),
            committed req now app i u r)
      else (SummaryJson 200 (summaryOf r), app))"
  using assms
  by (auto simp: PUT_report_def Let_def titleConflict_def committed_def applyUpdates_no_changes)

lemma PUT_report_effect:
  "snd (PUT_report toLowerCase req now app) = app \<or>
   (\<exists>i kvs u r. parseInt (param_id req) = Some i \<and> body req = Some kvs \<and>
      UpdateReportSchema kvs = Some u \<and> getReport i (store app) = Some r \<and>
      \<not> titleConflict toLowerCase u i (store app) \<and> computeChanges u r \<noteq> [] \<and>
      snd (PUT_report toLowerCase req now app) = committed req now app i u r)"
  by (auto simp: PUT_report_def Let_def titleConflict_def committed_def split: option.splits)

lemma UpdateReportSchema_title_nonempty:
  "UpdateReportSchema kvs = Some u \<Longrightarrow> u_title u = Some t \<Longrightarrow> t \<noteq> []"
  by (auto simp: UpdateReportSchema_def split: if_splits option.splits
      elim!: optionalString1.elims)

lemma UpdateReportSchema_severity_nonempty:
  "UpdateReportSchema kvs = Some u \<Longrightarrow> u_severity u = Some sv \<Longrightarrow> kvs \<noteq> []"
  by (auto simp: UpdateReportSchema_def split: if_splits option.splits)

lemma map_id_modifyReport_const:
  "report_id r' = i \<Longrightarrow> map report_id (modifyReport i (\<lambda>_. r') rs) = map report_id rs"
  by (induction rs) auto

lemma storeInv_committed:
  assumes inv: "storeInv toLowerCase (store app)" and r: "getReport i (store app) = Some r"
    and ok: "UpdateReportSchema kvs = Some u" and nc: "\<not> titleConflict toLowerCase u i (store app)"
  shows "storeInv toLowerCase (store (committed req now app i u r))"
proof -
  let ?r2 = "(applyUpdates u r)\<lparr>updatedAt := now\<rparr>"
  let ?rs = "reports (store app)"
  from r have rin: "r \<in> set ?rs" and rid: "report_id r = i"
    using getReport_Some by auto
  from inv have dids: "distinct (map report_id ?rs)" and dts: "distinct (lowerTitles toLowerCase ?rs)"
    and bounds: "list_all (\<lambda>x. 1 \<le> report_id x \<and> report_id x < nextId (store app)) ?rs"
    and n1: "1 \<le> nextId (store app)"
    by (auto simp: storeInv_def)
  have other: "\<forall>x\<in>set ?rs. report_id x \<noteq> i \<longrightarrow>
      toLowerCase (title x) \<noteq> toLowerCase (title ?r2)"
  proof (cases "u_title u")
    case None
    then have "title ?r2 = title r" by (simp add: applyUpdates_title)
    moreover have "\<forall>x\<in>set ?rs. report_id x \<noteq> i \<longrightarrow> toLowerCase (title x) \<noteq> toLowerCase (title r)"
      using dts rin rid by (auto simp: lowerTitles_def distinct_map dest: inj_onD)
    ultimately show ?thesis by simp
  next
    case (Some t)
    then have t: "title ?r2 = t" by (simp add: applyUpdates_title)
    from Some ok have "t \<noteq> []" by (rule UpdateReportSchema_title_nonempty [rotated])
    with nc Some have "\<not> titleExists toLowerCase t (Some i) (store app)" by (simp add: titleConflict_def)
    then show ?thesis unfolding t by (auto simp: titleExists_iff)
  qed
  have "distinct (lowerTitles toLowerCase (modifyReport i (\<lambda>_. ?r2) ?rs))"
    using dids dts other by (rule distinct_lowerTitles_modifyReport)
  moreover have "map report_id (modifyReport i (\<lambda>_. ?r2) ?rs) = map report_id ?rs"
    by (rule map_id_modifyReport_const) (simp add: rid)
  moreover have "list_all (\<lambda>x. 1 \<le> report_id x \<and> report_id x < nextId (store app))
      (modifyReport i (\<lambda>_. ?r2) ?rs)"
    using bounds rin rid set_modifyReport [of i ?r2 ?rs] by (auto simp: list_all_iff)
  ultimately show ?thesis using dids n1 by (simp add: storeInv_def committed_def)
qed

lemma storeInv_PUT_report:
  "storeInv toLowerCase (store app) \<Longrightarrow> storeInv toLowerCase (store (snd (PUT_report toLowerCase req now app)))"
  using PUT_report_effect [of toLowerCase req now app] by (auto intro: storeInv_committed)

lemma storeInv_POST_reports:
  "storeInv toLowerCase (store app) \<Longrightarrow> storeInv toLowerCase (store (snd (POST_reports toLowerCase req now app)))"
  using storeInv_addReport
  by (auto simp: POST_reports_def split: option.splits prod.splits) (metis snd_conv)+

lemma storeInv_POST_attachment:
  "storeInv toLowerCase (store app) \<Longrightarrow> storeInv toLowerCase (store (snd (POST_attachment sign req now app)))"
  by (auto simp: POST_attachment_def Let_def storeInv_addAttachment split: option.splits)

lemma reachable_storeInv: "reachable toLowerCase app \<Longrightarrow> storeInv toLowerCase (store app)"
proof (induction rule: reachable.induct)
  case initial
  show ?case by (simp add: initialApp_def storeInv_def lowerTitles_def)
next
  case (create app req now)
  then show ?case by (simp add: storeInv_POST_reports)
next
  case (update app req now)
  then show ?case by (simp add: storeInv_PUT_report)
next
  case (attach app sign req now)
  then show ?case by (simp add: storeInv_POST_attachment)
next
  case (delete app i)
  then show ?case by (simp add: storeInv_deleteReport)
qed

section \<open>The concrete states\<close>

lemmas schema_defs = UpdateReportSchema_def NewReportSchema_def strictKeys_def severityOf_def

lemmas store_defs = getReport_def titleExists_def addReport_def asciiLowerCase_def lower_char_def
  Let_def

lemma oneLow_eq:
  "oneLow = \<lparr>store = \<lparr>reports = [\<lparr>report_id = 1, title = ''Crash'',
       description = ''It crashes'', severity = Low, createdAt = 5, updatedAt = 5,
       entries = [], attachments = []\<rparr>], nextId = 2\<rparr>, auditLogs = []\<rparr>"
  by (simp add: oneLow_def POST_reports_def createRequest_def initialApp_def schema_defs
      store_defs)

lemma twoLow_eq:
  "twoLow = \<lparr>store = \<lparr>reports = [\<lparr>report_id = 1, title = ''Crash'',
       description = ''It crashes'', severity = Low, createdAt = 5, updatedAt = 5,
       entries = [], attachments = []\<rparr>,
       \<lparr>report_id = 2, title = ''Freeze'',
       description = ''It freezes'', severity = Low, createdAt = 6, updatedAt = 6,
       entries = [], attachments = []\<rparr>], nextId = 3\<rparr>, auditLogs = []\<rparr>"
  by (simp add: twoLow_def oneLow_eq POST_reports_def createRequest_def schema_defs
      store_defs)

lemma oneCritical_eq:
  "oneCritical = \<lparr>store = \<lparr>reports = [\<lparr>report_id = 1, title = ''Outage'',
       description = ''All down'', severity = Critical, createdAt = 5, updatedAt = 5,
       entries = [], attachments = []\<rparr>], nextId = 2\<rparr>, auditLogs = []\<rparr>"
  by (simp add: oneCritical_def POST_reports_def createRequest_def initialApp_def schema_defs
      store_defs)

lemma reachable_oneLow: "reachable asciiLowerCase oneLow"
  unfolding oneLow_def by (intro reachable.create reachable.initial)

lemma reachable_twoLow: "reachable asciiLowerCase twoLow"
  unfolding twoLow_def by (intro reachable.create reachable_oneLow)

lemma reachable_oneCritical: "reachable asciiLowerCase oneCritical"
  unfolding oneCritical_def by (intro reachable.create reachable.initial)

section \<open>Facts about a committed update\<close>

lemma getReport_committed:
  "getReport i (store app) = Some r \<Longrightarrow>
   getReport i (store (committed req now app i u r)) =
     Some ((applyUpdates u r)\<lparr>updatedAt := now\<rparr>)"
  using getReport_Some [of i "store app" r]
  by (simp add: committed_def getReport_def find_modifyReport)

lemma notAdmin_Some: "notAdmin (Some a) \<longleftrightarrow> role a = Developer"
  by (cases "role a") (simp_all add: notAdmin_def)

section \<open>The severity-escalation rule\<close>

text \<open>
  C1, as amended. An update of an existing report whose stored severity is not critical,
  with a payload that passes validation, sets severity to critical and whose title, if
  supplied, collides with no other report (the collision is answered first, with 409):
  a developer gets 403 with the message of the rule and the state is unchanged; an admin
  gets 200, the stored severity becomes critical and exactly one audit entry is appended.
  Its changes are the supplied title and description that differ from the stored ones,
  followed by severity with the prior value and critical; they are the severity pair
  alone when the payload changes no other field.
\<close>

theorem escalation_to_critical:
  assumes "parseInt (param_id req) = Some i" and "getReport i (store app) = Some r"
    and "severity r \<noteq> Critical"
    and "body req = Some kvs" and "UpdateReportSchema kvs = Some u"
    and "u_severity u = Some Critical"
    and "\<not> titleConflict toLowerCase u i (store app)"
    and "user req = Some a"
  shows "(role a = Developer \<longrightarrow>
            PUT_report toLowerCase req now app =
              (Error 403 ''Only admins can escalate severity to critical'', app))
       \<and> (role a = Admin \<longrightarrow>
            (\<exists>e. status (fst (PUT_report toLowerCase req now app)) = 200
               \<and> map_option severity (getReport i (store (snd (PUT_report toLowerCase req now app))))
                   = Some Critical
               \<and> auditLogs (snd (PUT_report toLowerCase req now app)) = auditLogs app @ [e]
               \<and> reportId e = i \<and> userId e = user_id a \<and> timestamp e = now
               \<and> changes e = diffTitle u r @ diffDescription u r @
                     [(''severity'', (severityName (severity r), ''critical''))]
               \<and> ((u_title u = None \<or> u_title u = Some (title r)) \<and>
                   (u_description u = None \<or> u_description u = Some (description r)) \<longrightarrow>
                   changes e = [(''severity'', (severityName (severity r), ''critical''))])))"
proof (intro conjI impI)
  assume dev: "role a = Developer"
  from assms(4,5,6) have ne: "kvs \<noteq> []" by (auto dest: UpdateReportSchema_severity_nonempty)
  from dev assms ne show "PUT_report toLowerCase req now app =
      (Error 403 ''Only admins can escalate severity to critical'', app)"
    by (simp add: PUT_report_def notAdmin_Some)
next
  assume adm: "role a = Admin"
  from assms(4,5,6) have ne: "kvs \<noteq> []" by (auto dest: UpdateReportSchema_severity_nonempty)
  have sev: "diffSeverity u r = [(''severity'', (severityName (severity r), ''critical''))]"
    using assms(3,6) by (auto simp: diffSeverity_def)
  then have ch: "computeChanges u r \<noteq> []" by (simp add: computeChanges_def)
  from adm assms(8) have na: "\<not> (u_severity u = Some Critical \<and> notAdmin (user req))"
    by (simp add: notAdmin_Some)
  have put: "PUT_report toLowerCase req now app =
      (SummaryJson 200 (summaryOf ((applyUpdates u r)\<lparr>updatedAt := now\<rparr>)),
       committed req now app i u r)"
    using PUT_report_passed [OF assms(1) assms(4) ne assms(5) assms(2) assms(7) na, of now] ch
    by simp
  let ?e = "\<lparr>reportId = report_id r, userId = auditUserId (user req),
          changes = computeChanges u r, timestamp = now\<rparr>"
  have rid: "report_id r = i" using getReport_Some [OF assms(2)] by simp
  have "status (fst (PUT_report toLowerCase req now app)) = 200" by (simp add: put)
  moreover have "map_option severity (getReport i (store (snd (PUT_report toLowerCase req now app))))
      = Some Critical"
    by (simp add: put getReport_committed [OF assms(2)] applyUpdates_severity assms(6))
  moreover have "auditLogs (snd (PUT_report toLowerCase req now app)) = auditLogs app @ [?e]"
    by (simp add: put committed_def)
  moreover have "reportId ?e = i \<and> userId ?e = user_id a \<and> timestamp ?e = now"
    by (simp add: rid assms(8) auditUserId_def)
  moreover have "changes ?e = diffTitle u r @ diffDescription u r @
      [(''severity'', (severityName (severity r), ''critical''))]"
    by (simp add: computeChanges_def sev)
  moreover have "(u_title u = None \<or> u_title u = Some (title r)) \<and>
      (u_description u = None \<or> u_description u = Some (description r)) \<longrightarrow>
      changes ?e = [(''severity'', (severityName (severity r), ''critical''))]"
    by (auto simp: computeChanges_def sev diffTitle_def diffDescription_def)
  ultimately show "\<exists>e. status (fst (PUT_report toLowerCase req now app)) = 200
       \<and> map_option severity (getReport i (store (snd (PUT_report toLowerCase req now app))))
           = Some Critical
       \<and> auditLogs (snd (PUT_report toLowerCase req now app)) = auditLogs app @ [e]
       \<and> reportId e = i \<and> userId e = user_id a \<and> timestamp e = now
       \<and> changes e = diffTitle u r @ diffDescription u r @
             [(''severity'', (severityName (severity r), ''critical''))]
       \<and> ((u_title u = None \<or> u_title u = Some (title r)) \<and>
           (u_description u = None \<or> u_description u = Some (description r)) \<longrightarrow>
           changes e = [(''severity'', (severityName (severity r), ''critical''))])"
    by blast
qed

section \<open>Evaluation of the update handler\<close>

lemmas put_defs = PUT_report_def putRequest_def parse_defs schema_defs store_defs
  titleConflict_def notAdmin_def computeChanges_def diffTitle_def diffDescription_def
  diffSeverity_def applyUpdates_def auditUserId_def summaryOf_def

theorem escalation_to_critical_witness:
  "PUT_report asciiLowerCase (putRequest ''1'' Developer [(''severity'', JStr ''critical'')]) 9 oneLow =
     (Error 403 ''Only admins can escalate severity to critical'', oneLow)
   \<and> auditLogs (snd (PUT_report asciiLowerCase (putRequest ''1'' Admin [(''severity'', JStr ''critical'')])
         9 oneLow)) =
       [\<lparr>reportId = 1, userId = ''u1'', changes = [(''severity'', (''low'', ''critical''))],
         timestamp = 9\<rparr>]"
proof -
  let ?kvs = "[(''severity'', JStr ''critical'')]"
  let ?u = "\<lparr>u_title = None, u_description = None, u_severity = Some Critical\<rparr>"
  let ?r = "\<lparr>report_id = 1, title = ''Crash'', description = ''It crashes'',
      severity = Low, createdAt = 5, updatedAt = 5, entries = [], attachments = []\<rparr>"
  have h1: "parseInt (param_id (putRequest ''1'' ro ?kvs)) = Some 1" for ro
    by (simp add: putRequest_def parse_defs)
  have h2: "getReport 1 (store oneLow) = Some ?r" by (simp add: oneLow_eq getReport_def)
  have h3: "severity ?r \<noteq> Critical" by simp
  have h4: "body (putRequest ''1'' ro ?kvs) = Some ?kvs" for ro by (simp add: putRequest_def)
  have h5: "UpdateReportSchema ?kvs = Some ?u" by (simp add: schema_defs)
  have h6: "u_severity ?u = Some Critical" by simp
  have h7: "\<not> titleConflict asciiLowerCase ?u 1 (store oneLow)" by (simp add: titleConflict_def)
  have h8: "user (putRequest ''1'' ro ?kvs) = Some \<lparr>user_id = ''u1'', role = ro\<rparr>" for ro
    by (simp add: putRequest_def)
  from escalation_to_critical [OF h1 h2 h3 h4 h5 h6 h7 h8, of Developer 9]
    escalation_to_critical [OF h1 h2 h3 h4 h5 h6 h7 h8, of Admin 9]
  show ?thesis by (auto simp: oneLow_eq)
qed

text \<open>
  The claim as stated fails where the payload carries more than the severity: a title that
  collides with another report is answered with 409 for both roles, and a payload that
  also changes the description is audited with two fields.
\<close>

theorem escalation_to_critical_counterexample:
  "map_option severity (getReport 2 (store twoLow)) = Some Low
   \<and> PUT_report asciiLowerCase (putRequest ''2'' Developer
         [(''title'', JStr ''CRASH''), (''severity'', JStr ''critical'')]) 9 twoLow =
       (Error 409 ''Another report with this title already exists'', twoLow)
   \<and> PUT_report asciiLowerCase (putRequest ''2'' Admin
         [(''title'', JStr ''CRASH''), (''severity'', JStr ''critical'')]) 9 twoLow =
       (Error 409 ''Another report with this title already exists'', twoLow)
   \<and> auditLogs (snd (PUT_report asciiLowerCase (putRequest ''2'' Admin
         [(''description'', JStr ''Hangs''), (''severity'', JStr ''critical'')]) 9 twoLow)) =
       [\<lparr>reportId = 2, userId = ''u1'',
         changes = [(''description'', (''It freezes'', ''Hangs'')),
                    (''severity'', (''low'', ''critical''))],
         timestamp = 9\<rparr>]"
  by (simp add: twoLow_eq put_defs)


section \<open>Re-submitting the critical severity\<close>

text \<open>
  C2, as amended. On a report whose stored severity is already critical, an update whose
  payload is \<^verbatim>\<open>{severity: critical}\<close> leaves the state unchanged and appends no audit
  entry for either role; an admin gets 200 with the current summary, a developer gets 403
  with the message of the escalation rule: the rule tests the incoming value and the
  role, not the stored severity.
\<close>

theorem resubmit_critical:
  assumes "parseInt (param_id req) = Some i" and "getReport i (store app) = Some r"
    and "severity r = Critical"
    and "body req = Some [(''severity'', JStr ''critical'')]"
    and "user req = Some a"
  shows "(role a = Admin \<longrightarrow> PUT_report toLowerCase req now app = (SummaryJson 200 (summaryOf r), app))
       \<and> (role a = Developer \<longrightarrow>
            PUT_report toLowerCase req now app =
              (Error 403 ''Only admins can escalate severity to critical'', app))"
  using assms
  by (auto simp: PUT_report_def schema_defs titleConflict_def notAdmin_Some computeChanges_def
      diffTitle_def diffDescription_def diffSeverity_def applyUpdates_def)

theorem resubmit_critical_witness:
  "PUT_report asciiLowerCase (putRequest ''1'' Admin [(''severity'', JStr ''critical'')]) 9 oneCritical =
     (SummaryJson 200
        \<lparr>s_id = 1, s_title = ''Outage'', s_description = ''All down'', s_severity = Critical,
         s_createdAt = 5, s_updatedAt = 5, s_entryCount = 0, s_severityScore = 4\<rparr>,
      oneCritical)"
proof -
  let ?req = "putRequest ''1'' Admin [(''severity'', JStr ''critical'')]"
  let ?r = "\<lparr>report_id = 1, title = ''Outage'', description = ''All down'',
      severity = Critical, createdAt = 5, updatedAt = 5, entries = [], attachments = []\<rparr>"
  have h1: "parseInt (param_id ?req) = Some 1" by (simp add: putRequest_def parse_defs)
  have h2: "getReport 1 (store oneCritical) = Some ?r"
    by (simp add: oneCritical_eq getReport_def)
  have h3: "severity ?r = Critical" by simp
  have h4: "body ?req = Some [(''severity'', JStr ''critical'')]" by (simp add: putRequest_def)
  have h5: "user ?req = Some \<lparr>user_id = ''u1'', role = Admin\<rparr>" by (simp add: putRequest_def)
  from resubmit_critical [OF h1 h2 h3 h4 h5, where now = 9 and toLowerCase = asciiLowerCase]
  show ?thesis by (simp add: summaryOf_def)
qed

text \<open>The claim as stated fails for the developer, who is refused.\<close>

theorem resubmit_critical_counterexample:
  "map_option severity (getReport 1 (store oneCritical)) = Some Critical
   \<and> PUT_report asciiLowerCase (putRequest ''1'' Developer [(''severity'', JStr ''critical'')]) 9 oneCritical =
       (Error 403 ''Only admins can escalate severity to critical'', oneCritical)"
  by (simp add: oneCritical_eq put_defs)

section \<open>Updates that change nothing\<close>

lemma no_titleConflict_own_title:
  assumes inv: "storeInv toLowerCase st" and r: "getReport i st = Some r"
    and t: "u_title u = None \<or> u_title u = Some (title r)"
  shows "\<not> titleConflict toLowerCase u i st"
proof (cases "u_title u")
  case None
  then show ?thesis by (simp add: titleConflict_def)
next
  case (Some t')
  with t have t': "t' = title r" by simp
  from r have rin: "r \<in> set (reports st)" and rid: "report_id r = i"
    using getReport_Some by auto
  from inv rin rid have i0: "i \<noteq> 0" by (auto simp: storeInv_def list_all_iff)
  from inv have "distinct (lowerTitles toLowerCase (reports st))" by (simp add: storeInv_def)
  then have "\<forall>x\<in>set (reports st). toLowerCase (title x) = toLowerCase (title r) \<longrightarrow> x = r"
    using rin by (auto simp: lowerTitles_def distinct_map dest: inj_onD)
  with rid i0 have "\<not> titleExists toLowerCase (title r) (Some i) st" by (auto simp: titleExists_iff)
  with Some t' show ?thesis by (simp add: titleConflict_def)
qed

lemma computeChanges_same:
  assumes "u_title u = None \<or> u_title u = Some (title r)"
    and "u_description u = None \<or> u_description u = Some (description r)"
    and "u_severity u = None \<or> u_severity u = Some (severity r)"
  shows "computeChanges u r = []"
  using assms by (auto simp: computeChanges_def diffTitle_def diffDescription_def diffSeverity_def)

text \<open>
  C3, as amended. In a reachable state, an update of an existing report with a non-empty
  payload that passes validation and whose supplied title, description and severity equal
  the stored values leaves the whole state as it was: no audit entry, \<^verbatim>\<open>updatedAt\<close>
  unchanged. The answer is 200 with the current summary, except for a developer whose
  payload supplies the (stored) severity critical, who gets the 403 of the escalation rule.
\<close>

theorem identical_update_changes_nothing:
  assumes "reachable toLowerCase app"
    and "parseInt (param_id req) = Some i" and "getReport i (store app) = Some r"
    and "body req = Some kvs" and "kvs \<noteq> []" and "UpdateReportSchema kvs = Some u"
    and "u_title u = None \<or> u_title u = Some (title r)"
    and "u_description u = None \<or> u_description u = Some (description r)"
    and "u_severity u = None \<or> u_severity u = Some (severity r)"
    and "user req = Some a"
  shows "snd (PUT_report toLowerCase req now app) = app
       \<and> (u_severity u = Some Critical \<and> role a = Developer \<longrightarrow>
            fst (PUT_report toLowerCase req now app) =
              Error 403 ''Only admins can escalate severity to critical'')
       \<and> (\<not> (u_severity u = Some Critical \<and> role a = Developer) \<longrightarrow>
            fst (PUT_report toLowerCase req now app) = SummaryJson 200 (summaryOf r))"
proof -
  from assms(1) have inv: "storeInv toLowerCase (store app)" by (rule reachable_storeInv)
  have nc: "\<not> titleConflict toLowerCase u i (store app)"
    using inv assms(3) assms(7) by (rule no_titleConflict_own_title)
  have same: "computeChanges u r = []" using assms(7-9) by (rule computeChanges_same)
  show ?thesis
  proof (cases "u_severity u = Some Critical \<and> role a = Developer")
    case True
    with assms nc show ?thesis by (simp add: PUT_report_def notAdmin_Some)
  next
    case False
    with assms(10) have na: "\<not> (u_severity u = Some Critical \<and> notAdmin (user req))"
      by (simp add: notAdmin_Some)
    from PUT_report_passed [OF assms(2) assms(4) assms(5) assms(6) assms(3) nc na, of now] same
    have "PUT_report toLowerCase req now app = (SummaryJson 200 (summaryOf r), app)" by simp
    with False show ?thesis by simp
  qed
qed

theorem identical_update_changes_nothing_witness:
  "PUT_report asciiLowerCase (putRequest ''2'' Developer
       [(''title'', JStr ''Freeze''), (''description'', JStr ''It freezes''),
        (''severity'', JStr ''low'')]) 9 twoLow =
     (SummaryJson 200
        \<lparr>s_id = 2, s_title = ''Freeze'', s_description = ''It freezes'', s_severity = Low,
         s_createdAt = 6, s_updatedAt = 6, s_entryCount = 0, s_severityScore = 1\<rparr>,
      twoLow)"
proof -
  let ?kvs = "[(''title'', JStr ''Freeze''), (''description'', JStr ''It freezes''),
        (''severity'', JStr ''low'')]"
  let ?req = "putRequest ''2'' Developer ?kvs"
  let ?u = "\<lparr>u_title = Some ''Freeze'', u_description = Some ''It freezes'',
      u_severity = Some Low\<rparr>"
  let ?r = "\<lparr>report_id = 2, title = ''Freeze'', description = ''It freezes'',
      severity = Low, createdAt = 6, updatedAt = 6, entries = [], attachments = []\<rparr>"
  have h2: "parseInt (param_id ?req) = Some 2" by (simp add: putRequest_def parse_defs)
  have h3: "getReport 2 (store twoLow) = Some ?r" by (simp add: twoLow_eq getReport_def)
  have h4: "body ?req = Some ?kvs" by (simp add: putRequest_def)
  have h5: "?kvs \<noteq> []" by simp
  have h6: "UpdateReportSchema ?kvs = Some ?u" by (simp add: schema_defs)
  have h7: "u_title ?u = None \<or> u_title ?u = Some (title ?r)" by simp
  have h8: "u_description ?u = None \<or> u_description ?u = Some (description ?r)" by simp
  have h9: "u_severity ?u = None \<or> u_severity ?u = Some (severity ?r)" by simp
  have h10: "user ?req = Some \<lparr>user_id = ''u1'', role = Developer\<rparr>"
    by (simp add: putRequest_def)
  from identical_update_changes_nothing [OF reachable_twoLow h2 h3 h4 h5 h6 h7 h8 h9 h10, of 9]
  show ?thesis by (simp add: summaryOf_def prod_eq_iff)
qed

text \<open>The claim as stated fails for a developer who re-submits the stored values of a
  critical report: the update does not succeed.\<close>

theorem identical_update_changes_nothing_counterexample:
  "getReport 1 (store oneCritical) =
     Some \<lparr>report_id = 1, title = ''Outage'', description = ''All down'',
           severity = Critical, createdAt = 5, updatedAt = 5, entries = [],
           attachments = []\<rparr>
   \<and> status (fst (PUT_report asciiLowerCase (putRequest ''1'' Developer
         [(''title'', JStr ''Outage''), (''description'', JStr ''All down''),
          (''severity'', JStr ''critical'')]) 9 oneCritical)) = 403"
  by (simp add: oneCritical_eq put_defs)

section \<open>The download path\<close>

lemma oneAttachment_eq:
  "oneAttachment = \<lparr>store = \<lparr>reports = [\<lparr>report_id = 1, title = ''Crash'',
       description = ''It crashes'', severity = Low, createdAt = 5, updatedAt = 9,
       entries = [],
       attachments = [\<lparr>filename = ''A'', originalName = ''log.txt'',
         mimetype = ''text/plain'', att_size = 12, uploadedAt = 9\<rparr>]\<rparr>],
       nextId = 2\<rparr>, auditLogs = []\<rparr>"
  by (simp add: oneAttachment_def POST_attachment_def uploadRequest_def parse_defs oneLow_eq
      getReport_def addAttachment_def Let_def)

text \<open>
  C4. A download request with a numeric id, a file name and a token in its query: when
  verification of the token fails the answer is 401; when the token verifies and its
  \<^verbatim>\<open>reportId\<close> or its \<^verbatim>\<open>file\<close> differs from the path the answer is 403; both answers are
  given whatever the store holds, so before any look at the store. When the token
  verifies and matches, the answer is 404 if the report is absent or has no attachment
  of that name, and the file is sent otherwise.
\<close>

theorem download_checks_in_order:
  assumes "parseInt (param_id req) = Some i" and "param_filename req \<noteq> []"
    and "map_of (query req) ''token'' = Some tok" and "tok \<noteq> []"
  shows "(verify tok = None \<longrightarrow>
            GET_attachment verify req app = Error 401 ''Unauthorized or expired token'')
       \<and> (verify tok = Some d \<and>
            (map_of d ''reportId'' \<noteq> Some (JNum i) \<or>
             map_of d ''file'' \<noteq> Some (JStr (param_filename req))) \<longrightarrow>
            GET_attachment verify req app = Error 403 ''Invalid token for this file'')
       \<and> (verify tok = Some d \<and> map_of d ''reportId'' = Some (JNum i) \<and>
            map_of d ''file'' = Some (JStr (param_filename req)) \<and>
            (getReport i (store app) = None \<or>
             (getReport i (store app) = Some r \<and>
              find (\<lambda>att. filename att = param_filename req) (attachments r) = None)) \<longrightarrow>
            GET_attachment verify req app = Error 404 ''File not found'')
       \<and> (verify tok = Some d \<and> map_of d ''reportId'' = Some (JNum i) \<and>
            map_of d ''file'' = Some (JStr (param_filename req)) \<and>
            getReport i (store app) = Some r \<and>
            find (\<lambda>att. filename att = param_filename req) (attachments r) = Some att \<longrightarrow>
            GET_attachment verify req app =
              SendFile (mimetype att) (originalName att) (param_filename req))"
  using assms by (auto simp: GET_attachment_def)

theorem download_checks_in_order_witness:
  "GET_attachment demoVerify (downloadRequest ''1'' ''A'' ''forged'') oneAttachment =
     Error 401 ''Unauthorized or expired token''
   \<and> GET_attachment demoVerify (downloadRequest ''1'' ''B'' ''tok:A'') oneAttachment =
     Error 403 ''Invalid token for this file''
   \<and> GET_attachment demoVerify (downloadRequest ''2'' ''A'' ''tok:A'') oneAttachment =
     Error 403 ''Invalid token for this file''
   \<and> GET_attachment demoVerify (downloadRequest ''1'' ''A'' ''session'') oneAttachment =
     Error 403 ''Invalid token for this file''
   \<and> GET_attachment demoVerify (downloadRequest ''1'' ''A'' ''tok:A'') oneLow =
     Error 404 ''File not found''
   \<and> GET_attachment demoVerify (downloadRequest ''1'' ''A'' ''tok:A'') initialApp =
     Error 404 ''File not found''
   \<and> GET_attachment demoVerify (downloadRequest ''1'' ''A'' ''tok:A'') oneAttachment =
     SendFile ''text/plain'' ''log.txt'' ''A''"
proof -
  let ?dA = "[(''reportId'', JNum 1), (''file'', JStr ''A''), (''exp'', JNum 900009)]"
  let ?dS = "[(''id'', JStr ''dev1''), (''role'', JStr ''developer'')]"
  have p: "parseInt (param_id (downloadRequest ''1'' f t)) = Some 1" for f t
    by (simp add: downloadRequest_def parse_defs)
  have p2: "parseInt (param_id (downloadRequest ''2'' f t)) = Some 2" for f t
    by (simp add: downloadRequest_def parse_defs)
  have q: "map_of (query (downloadRequest j f t)) ''token'' = Some t" for j f t
    by (simp add: downloadRequest_def)
  have n: "param_filename (downloadRequest j f t) = f" for j f t
    by (simp add: downloadRequest_def)
  have a: "param_filename (downloadRequest j ''A'' t) \<noteq> []" for j t
    by (simp add: downloadRequest_def)
  have b: "param_filename (downloadRequest j ''B'' t) \<noteq> []" for j t
    by (simp add: downloadRequest_def)
  have t1: "''forged'' \<noteq> []" and t2: "''tok:A'' \<noteq> []" and t3: "''session'' \<noteq> []"
    by simp_all
  note c1 = download_checks_in_order [OF p a q t1, where verify = demoVerify and app = oneAttachment]
  note c2 = download_checks_in_order [OF p b q t2, where verify = demoVerify and d = ?dA and app = oneAttachment]
  note c3 = download_checks_in_order [OF p2 a q t2, where verify = demoVerify and d = ?dA and app = oneAttachment]
  note c4 = download_checks_in_order [OF p a q t3, where verify = demoVerify and d = ?dS and app = oneAttachment]
  note c5 = download_checks_in_order [OF p a q t2, where verify = demoVerify and d = ?dA and app = oneLow]
  note c6 = download_checks_in_order [OF p a q t2, where verify = demoVerify and d = ?dA and app = initialApp]
  note c7 = download_checks_in_order [OF p a q t2, where verify = demoVerify and d = ?dA and app = oneAttachment]
  have "GET_attachment demoVerify (downloadRequest ''1'' ''A'' ''forged'') oneAttachment =
     Error 401 ''Unauthorized or expired token''"
    using c1 by (simp add: demoVerify_def)
  moreover have "GET_attachment demoVerify (downloadRequest ''1'' ''B'' ''tok:A'') oneAttachment =
     Error 403 ''Invalid token for this file''"
    using c2 by (simp add: demoVerify_def n)
  moreover have "GET_attachment demoVerify (downloadRequest ''2'' ''A'' ''tok:A'') oneAttachment =
     Error 403 ''Invalid token for this file''"
    using c3 by (simp add: demoVerify_def n)
  moreover have "GET_attachment demoVerify (downloadRequest ''1'' ''A'' ''session'') oneAttachment =
     Error 403 ''Invalid token for this file''"
    using c4 by (simp add: demoVerify_def n)
  moreover have "GET_attachment demoVerify (downloadRequest ''1'' ''A'' ''tok:A'') oneLow =
     Error 404 ''File not found''"
    using c5 [where r = "\<lparr>report_id = 1, title = ''Crash'',
       description = ''It crashes'', severity = Low, createdAt = 5, updatedAt = 5,
       entries = [], attachments = []\<rparr>"] by (simp add: demoVerify_def n oneLow_eq getReport_def)
  moreover have "GET_attachment demoVerify (downloadRequest ''1'' ''A'' ''tok:A'') initialApp =
     Error 404 ''File not found''"
    using c6 by (simp add: demoVerify_def n initialApp_def getReport_def)
  moreover have "GET_attachment demoVerify (downloadRequest ''1'' ''A'' ''tok:A'') oneAttachment =
     SendFile ''text/plain'' ''log.txt'' ''A''"
    using c7 [where r = "\<lparr>report_id = 1, title = ''Crash'',
       description = ''It crashes'', severity = Low, createdAt = 5, updatedAt = 9,
       entries = [],
       attachments = [\<lparr>filename = ''A'', originalName = ''log.txt'',
         mimetype = ''text/plain'', att_size = 12, uploadedAt = 9\<rparr>]\<rparr>"
       and att = "\<lparr>filename = ''A'', originalName = ''log.txt'',
         mimetype = ''text/plain'', att_size = 12, uploadedAt = 9\<rparr>"]
    by (simp add: demoVerify_def n oneAttachment_eq getReport_def)
  ultimately show ?thesis by blast
qed

section \<open>The audit trail and the attachment upload\<close>

lemma getReport_addAttachment:
  "getReport i st = Some r \<Longrightarrow>
   getReport i (snd (addAttachment i att now st)) =
     Some (r\<lparr>attachments := attachments r @ [att], updatedAt := now\<rparr>)"
proof -
  assume g: "getReport i st = Some r"
  let ?f = "\<lambda>x. x\<lparr>attachments := attachments x @ [att], updatedAt := now\<rparr>"
  from g have "report_id (?f r) = i" using getReport_Some by simp
  moreover from g have "find (\<lambda>x. report_id x = i) (reports st) = Some r"
    by (simp add: getReport_def)
  ultimately have "find (\<lambda>x. report_id x = i) (modifyReport i ?f (reports st)) = Some (?f r)"
    by (rule find_modifyReport)
  with g show ?thesis by (simp add: addAttachment_def getReport_def)
qed

lemma PUT_report_audit:
  assumes "store (snd (PUT_report toLowerCase req now app)) \<noteq> store app"
  shows "\<exists>i kvs u r. parseInt (param_id req) = Some i \<and> body req = Some kvs \<and>
      UpdateReportSchema kvs = Some u \<and> getReport i (store app) = Some r \<and>
      computeChanges u r \<noteq> [] \<and>
      getReport i (store (snd (PUT_report toLowerCase req now app))) =
        Some ((applyUpdates u r)\<lparr>updatedAt := now\<rparr>) \<and>
      auditLogs (snd (PUT_report toLowerCase req now app)) =
        auditLogs app @
          [\<lparr>reportId = i, userId = auditUserId (user req),
            changes = computeChanges u r, timestamp = now\<rparr>]"
proof -
  from assms have "snd (PUT_report toLowerCase req now app) \<noteq> app" by auto
  with PUT_report_effect [of toLowerCase req now app]
  obtain i kvs u r where p: "parseInt (param_id req) = Some i" "body req = Some kvs"
      "UpdateReportSchema kvs = Some u" "getReport i (store app) = Some r"
      "computeChanges u r \<noteq> []"
      "snd (PUT_report toLowerCase req now app) = committed req now app i u r"
    by blast
  from p(4) have rid: "report_id r = i" using getReport_Some by simp
  have "getReport i (store (snd (PUT_report toLowerCase req now app))) =
      Some ((applyUpdates u r)\<lparr>updatedAt := now\<rparr>)"
    using p(4) by (simp add: p(6) getReport_committed)
  moreover have "auditLogs (snd (PUT_report toLowerCase req now app)) =
      auditLogs app @
        [\<lparr>reportId = i, userId = auditUserId (user req),
          changes = computeChanges u r, timestamp = now\<rparr>]"
    by (simp add: p(6) committed_def rid)
  ultimately show ?thesis using p(1-5) by blast
qed

text \<open>
  C5, as amended. The attachment upload never appends to the audit log: a successful
  upload answers 200, appends the attachment to the report and sets its \<^verbatim>\<open>updatedAt\<close>,
  and leaves the audit log as it was. An update (PUT) that changes the store appends
  exactly one audit entry, and that entry is the record of this mutation: it names the
  updated report and the caller, its changes are the diff of the validated payload
  against the report as it was stored, its time is that of the update, and the report
  stored afterwards is the former one with the payload's differing fields assigned and
  \<^verbatim>\<open>updatedAt\<close> set.
\<close>

theorem upload_appends_no_audit_record:
  "auditLogs (snd (POST_attachment sign req now app)) = auditLogs app
   \<and> (parseInt (param_id req) = Some i \<and> getReport i (store app) = Some r \<and>
        req_file req = Some f \<longrightarrow>
        status (fst (POST_attachment sign req now app)) = 200
        \<and> getReport i (store (snd (POST_attachment sign req now app))) =
            Some (r\<lparr>attachments := attachments r @
                       [\<lparr>filename = f_filename f, originalName = f_originalname f,
                         mimetype = f_mimetype f, att_size = f_size f, uploadedAt = now\<rparr>],
                    updatedAt := now\<rparr>))
   \<and> (store (snd (PUT_report toLowerCase req' now app)) \<noteq> store app \<longrightarrow>
        (\<exists>j kvs u r'. parseInt (param_id req') = Some j \<and> body req' = Some kvs \<and>
           UpdateReportSchema kvs = Some u \<and> getReport j (store app) = Some r' \<and>
           computeChanges u r' \<noteq> [] \<and>
           getReport j (store (snd (PUT_report toLowerCase req' now app))) =
             Some ((applyUpdates u r')\<lparr>updatedAt := now\<rparr>) \<and>
           auditLogs (snd (PUT_report toLowerCase req' now app)) =
             auditLogs app @
               [\<lparr>reportId = j, userId = auditUserId (user req'),
                 changes = computeChanges u r', timestamp = now\<rparr>]))"
proof (intro conjI impI)
  show "auditLogs (snd (POST_attachment sign req now app)) = auditLogs app"
    by (simp add: POST_attachment_def Let_def split: option.splits)
next
  assume a: "parseInt (param_id req) = Some i \<and> getReport i (store app) = Some r \<and>
      req_file req = Some f"
  then show "status (fst (POST_attachment sign req now app)) = 200"
    by (simp add: POST_attachment_def Let_def)
  from a show "getReport i (store (snd (POST_attachment sign req now app))) =
      Some (r\<lparr>attachments := attachments r @
                 [\<lparr>filename = f_filename f, originalName = f_originalname f,
                   mimetype = f_mimetype f, att_size = f_size f, uploadedAt = now\<rparr>],
              updatedAt := now\<rparr>)"
    by (simp add: POST_attachment_def Let_def getReport_addAttachment)
next
  assume "store (snd (PUT_report toLowerCase req' now app)) \<noteq> store app"
  then show "\<exists>j kvs u r'. parseInt (param_id req') = Some j \<and> body req' = Some kvs \<and>
      UpdateReportSchema kvs = Some u \<and> getReport j (store app) = Some r' \<and>
      computeChanges u r' \<noteq> [] \<and>
      getReport j (store (snd (PUT_report toLowerCase req' now app))) =
        Some ((applyUpdates u r')\<lparr>updatedAt := now\<rparr>) \<and>
      auditLogs (snd (PUT_report toLowerCase req' now app)) =
        auditLogs app @
          [\<lparr>reportId = j, userId = auditUserId (user req'),
            changes = computeChanges u r', timestamp = now\<rparr>]"
    by (rule PUT_report_audit)
qed

theorem upload_appends_no_audit_record_witness:
  "getReport 1 (store (snd (POST_attachment demoSign (uploadRequest ''1'' ''A'') 9 oneLow))) =
     Some \<lparr>report_id = 1, title = ''Crash'', description = ''It crashes'', severity = Low,
           createdAt = 5, updatedAt = 9, entries = [],
           attachments = [\<lparr>filename = ''A'', originalName = ''log.txt'',
             mimetype = ''text/plain'', att_size = 12, uploadedAt = 9\<rparr>]\<rparr>
   \<and> store (snd (PUT_report asciiLowerCase
         (putRequest ''1'' Developer [(''severity'', JStr ''high'')]) 10 oneLow)) =
       \<lparr>reports = [\<lparr>report_id = 1, title = ''Crash'', description = ''It crashes'',
           severity = High, createdAt = 5, updatedAt = 10, entries = [],
           attachments = []\<rparr>], nextId = 2\<rparr>
   \<and> auditLogs (snd (PUT_report asciiLowerCase
         (putRequest ''1'' Developer [(''severity'', JStr ''high'')]) 10 oneLow)) =
       [\<lparr>reportId = 1, userId = ''u1'', changes = [(''severity'', (''low'', ''high''))],
         timestamp = 10\<rparr>]"
proof -
  let ?r = "\<lparr>report_id = 1, title = ''Crash'', description = ''It crashes'',
      severity = Low, createdAt = 5, updatedAt = 5, entries = [], attachments = []\<rparr>"
  let ?f = "\<lparr>f_filename = ''A'', f_originalname = ''log.txt'',
      f_mimetype = ''text/plain'', f_size = 12\<rparr>"
  let ?put = "putRequest ''1'' Developer [(''severity'', JStr ''high'')]"
  have h: "parseInt (param_id (uploadRequest ''1'' ''A'')) = Some 1
      \<and> getReport 1 (store oneLow) = Some ?r \<and> req_file (uploadRequest ''1'' ''A'') = Some ?f"
    by (simp add: uploadRequest_def parse_defs oneLow_eq getReport_def)
  have c: "store (snd (PUT_report asciiLowerCase ?put 10 oneLow)) \<noteq> store oneLow"
    by (simp add: oneLow_eq put_defs)
  from upload_appends_no_audit_record [where sign = demoSign and
      req = "uploadRequest ''1'' ''A''" and now = 9 and app = oneLow and i = 1 and r = ?r
      and f = ?f] h
  have "getReport 1 (store (snd (POST_attachment demoSign (uploadRequest ''1'' ''A'') 9 oneLow))) =
     Some \<lparr>report_id = 1, title = ''Crash'', description = ''It crashes'', severity = Low,
           createdAt = 5, updatedAt = 9, entries = [],
           attachments = [\<lparr>filename = ''A'', originalName = ''log.txt'',
             mimetype = ''text/plain'', att_size = 12, uploadedAt = 9\<rparr>]\<rparr>"
    by simp
  moreover from upload_appends_no_audit_record [where toLowerCase = asciiLowerCase
      and req' = ?put and now = 10 and app = oneLow] c
  obtain j kvs u r' where p: "parseInt (param_id ?put) = Some j" "body ?put = Some kvs"
      "UpdateReportSchema kvs = Some u" "getReport j (store oneLow) = Some r'"
      "auditLogs (snd (PUT_report asciiLowerCase ?put 10 oneLow)) =
         auditLogs oneLow @
           [\<lparr>reportId = j, userId = auditUserId (user ?put),
             changes = computeChanges u r', timestamp = 10\<rparr>]"
    by blast
  from p(1) have j: "j = 1" by (simp add: putRequest_def parse_defs)
  from p(2) have kvs: "kvs = [(''severity'', JStr ''high'')]" by (simp add: putRequest_def)
  from p(3) have u: "u = \<lparr>u_title = None, u_description = None, u_severity = Some High\<rparr>"
    by (simp add: kvs schema_defs)
  from p(4) have r': "r' = ?r" by (simp add: j oneLow_eq getReport_def)
  have "auditLogs (snd (PUT_report asciiLowerCase ?put 10 oneLow)) =
       [\<lparr>reportId = 1, userId = ''u1'', changes = [(''severity'', (''low'', ''high''))],
         timestamp = 10\<rparr>]"
    using p(5)
    by (simp add: j u r' oneLow_eq putRequest_def auditUserId_def computeChanges_def
        diffTitle_def diffDescription_def diffSeverity_def)
  moreover have "store (snd (PUT_report asciiLowerCase ?put 10 oneLow)) =
       \<lparr>reports = [\<lparr>report_id = 1, title = ''Crash'', description = ''It crashes'',
           severity = High, createdAt = 5, updatedAt = 10, entries = [],
           attachments = []\<rparr>], nextId = 2\<rparr>"
    by (simp add: oneLow_eq put_defs)
  ultimately show ?thesis by simp
qed

text \<open>The claim as stated fails at a successful upload: the report changes and the audit
  log does not.\<close>

theorem upload_appends_no_audit_record_counterexample:
  "status (fst (POST_attachment demoSign (uploadRequest ''1'' ''A'') 9 oneLow)) = 200
   \<and> concat (map attachments (reports (store oneLow))) = []
   \<and> concat (map attachments
        (reports (store (snd (POST_attachment demoSign (uploadRequest ''1'' ''A'') 9 oneLow))))) =
       [\<lparr>filename = ''A'', originalName = ''log.txt'', mimetype = ''text/plain'',
         att_size = 12, uploadedAt = 9\<rparr>]
   \<and> auditLogs oneLow = []
   \<and> auditLogs (snd (POST_attachment demoSign (uploadRequest ''1'' ''A'') 9 oneLow)) = []"
  by (simp add: POST_attachment_def uploadRequest_def parse_defs oneLow_eq getReport_def
      addAttachment_def Let_def)

section \<open>Identifiers\<close>

lemma nextId_deleteReport [simp]: "nextId (snd (deleteReport i st)) = nextId st"
  by (simp add: deleteReport_def)

lemma runOps_lower_bound:
  "\<forall>j\<in>set (fst (runOps ops st)). nextId st \<le> j"
proof (induction ops st rule: runOps.induct)
  case (1 st)
  show ?case by simp
next
  case (2 t d sv now ops st)
  let ?st1 = "snd (addReport t d sv now st)"
  have "\<forall>j\<in>set (fst (runOps ops ?st1)). nextId ?st1 \<le> j"
    using "2.IH" [of "fst (addReport t d sv now st)" ?st1] by simp
  then have "\<forall>j\<in>set (fst (runOps ops ?st1)). nextId st \<le> j"
    by (fastforce simp: addReport_def Let_def)
  then show ?case by (auto simp: addReport_def Let_def split: prod.splits)
next
  case (3 i ops st)
  then show ?case by simp
qed

lemma runOps_increasing: "sorted_wrt (<) (fst (runOps ops st))"
proof (induction ops st rule: runOps.induct)
  case (1 st)
  show ?case by simp
next
  case (2 t d sv now ops st)
  let ?st1 = "snd (addReport t d sv now st)"
  have ih: "sorted_wrt (<) (fst (runOps ops ?st1))"
    using "2.IH" [of "fst (addReport t d sv now st)" ?st1] by simp
  have "\<forall>j\<in>set (fst (runOps ops ?st1)). nextId ?st1 \<le> j" by (rule runOps_lower_bound)
  then have "\<forall>j\<in>set (fst (runOps ops ?st1)). nextId st < j"
    by (auto simp: addReport_def Let_def)
  with ih show ?case by (auto simp: addReport_def Let_def split: prod.splits)
next
  case (3 i ops st)
  then show ?case by simp
qed

lemma runOps_stored_ids:
  "\<forall>r\<in>set (reports st). report_id r < nextId st \<Longrightarrow>
   \<forall>r\<in>set (reports (snd (runOps ops st))). report_id r < nextId (snd (runOps ops st))"
proof (induction ops st rule: runOps.induct)
  case (1 st)
  then show ?case by simp
next
  case (2 t d sv now ops st)
  let ?st1 = "snd (addReport t d sv now st)"
  have "\<forall>r\<in>set (reports ?st1). report_id r < nextId ?st1"
    using "2.prems" by (auto simp: addReport_def Let_def)
  with "2.IH" [of "fst (addReport t d sv now st)" ?st1]
  show ?case by (auto split: prod.splits)
next
  case (3 i ops st)
  have "\<forall>r\<in>set (reports (snd (deleteReport i st))). report_id r < nextId (snd (deleteReport i st))"
    using "3.prems" set_removeFirst [of i "reports st"] by (auto simp: deleteReport_def)
  with "3.IH" show ?case by simp
qed

text \<open>
  C6. Whatever creates and deletes are run, from whatever state of the store, the ids that
  the creates assign are strictly increasing in the order of the creates, hence pairwise
  different, and none is below the counter at the start. When the ids stored at the start
  are below the counter, as they are in the initial and in every later state, each
  assigned id is also greater than every id stored at the start, deleted since or not.
\<close>

theorem assigned_ids_strictly_increasing:
  "sorted_wrt (<) (fst (runOps ops st))
   \<and> distinct (fst (runOps ops st))
   \<and> (\<forall>j\<in>set (fst (runOps ops st)). nextId st \<le> j)
   \<and> ((\<forall>r\<in>set (reports st). report_id r < nextId st) \<longrightarrow>
        (\<forall>j\<in>set (fst (runOps ops st)). \<forall>r\<in>set (reports st). report_id r < j)
        \<and> (\<forall>r\<in>set (reports (snd (runOps ops st))).
              report_id r < nextId (snd (runOps ops st))))"
proof -
  have inc: "sorted_wrt (<) (fst (runOps ops st))" by (rule runOps_increasing)
  then have dist: "distinct (fst (runOps ops st))" by (simp add: strict_sorted_iff)
  have lb: "\<forall>j\<in>set (fst (runOps ops st)). nextId st \<le> j" by (rule runOps_lower_bound)
  have "(\<forall>r\<in>set (reports st). report_id r < nextId st) \<longrightarrow>
        (\<forall>j\<in>set (fst (runOps ops st)). \<forall>r\<in>set (reports st). report_id r < j)"
    using lb by fastforce
  with inc dist lb runOps_stored_ids [of st ops] show ?thesis by blast
qed


theorem assigned_ids_strictly_increasing_witness:
  "map report_id (reports (store twoLow)) = [1, 2] \<and> nextId (store twoLow) = 3
   \<and> fst (runOps [Create ''a'' ''x'' Low 7, Delete 2, Create ''b'' ''y'' High 8, Delete 3,
                Create ''c'' ''z'' Low 9] (store twoLow)) = [3, 4, 5]
   \<and> map report_id (reports (snd (runOps
          [Create ''a'' ''x'' Low 7, Delete 2, Create ''b'' ''y'' High 8, Delete 3,
           Create ''c'' ''z'' Low 9] (store twoLow)))) = [1, 4, 5]"
  using assigned_ids_strictly_increasing [of
      "[Create ''a'' ''x'' Low 7, Delete 2, Create ''b'' ''y'' High 8, Delete 3,
        Create ''c'' ''z'' Low 9]" "store twoLow"]
  by (simp add: twoLow_eq addReport_def deleteReport_def Let_def)

section \<open>Uniqueness of titles\<close>

lemma POST_reports_conflict:
  assumes "body req = Some kvs" and "NewReportSchema kvs = Some d"
    and "\<exists>r\<in>set (reports (store app)). toLowerCase (title r) = toLowerCase (n_title d)"
  shows "POST_reports toLowerCase req now app =
     (Error 409 ''A report with this title already exists'', app)"
  using assms by (auto simp: POST_reports_def titleExists_iff)

lemma PUT_report_conflict:
  assumes "parseInt (param_id req) = Some i" and "body req = Some kvs" and "kvs \<noteq> []"
    and "UpdateReportSchema kvs = Some u" and "u_title u = Some t"
    and "getReport i (store app) = Some r"
    and "\<exists>x\<in>set (reports (store app)). report_id x \<noteq> i \<and>
           toLowerCase (title x) = toLowerCase t"
  shows "PUT_report toLowerCase req now app =
     (Error 409 ''Another report with this title already exists'', app)"
proof -
  from assms(4,5) have "t \<noteq> []" by (rule UpdateReportSchema_title_nonempty)
  moreover from assms(7) have "titleExists toLowerCase t (Some i) (store app)"
    by (auto simp: titleExists_iff)
  ultimately have "titleConflict toLowerCase u i (store app)" using assms(5) by (simp add: titleConflict_def)
  with assms show ?thesis by (simp add: PUT_report_def)
qed

text \<open>
  C7. Whatever function \<open>toLowerCase\<close> is, so for the library's own: in every reachable
  state the titles of the stored reports are pairwise different under \<open>toLowerCase\<close>. A
  create whose (valid) title has the same \<open>toLowerCase\<close> as a stored title is answered
  with 409 and changes nothing; so is an update of an existing report whose (valid) title
  has the same \<open>toLowerCase\<close> as the title of another stored report.
\<close>

theorem titles_unique_ignoring_case:
  "(reachable toLowerCase app \<longrightarrow> distinct (map (\<lambda>r. toLowerCase (title r)) (reports (store app))))
   \<and> (body req = Some kvs \<and> NewReportSchema kvs = Some d \<and>
        (\<exists>r\<in>set (reports (store app)). toLowerCase (title r) = toLowerCase (n_title d)) \<longrightarrow>
        POST_reports toLowerCase req now app =
          (Error 409 ''A report with this title already exists'', app))
   \<and> (parseInt (param_id req') = Some i \<and> body req' = Some kvs' \<and> kvs' \<noteq> [] \<and>
        UpdateReportSchema kvs' = Some u \<and> u_title u = Some t \<and>
        getReport i (store app) = Some r \<and>
        (\<exists>x\<in>set (reports (store app)). report_id x \<noteq> i \<and>
           toLowerCase (title x) = toLowerCase t) \<longrightarrow>
        PUT_report toLowerCase req' now app =
          (Error 409 ''Another report with this title already exists'', app))"
proof (intro conjI impI)
  assume "reachable toLowerCase app"
  then have "storeInv toLowerCase (store app)" by (rule reachable_storeInv)
  then show "distinct (map (\<lambda>r. toLowerCase (title r)) (reports (store app)))"
    by (simp add: storeInv_def lowerTitles_def)
next
  assume "body req = Some kvs \<and> NewReportSchema kvs = Some d \<and>
        (\<exists>r\<in>set (reports (store app)). toLowerCase (title r) = toLowerCase (n_title d))"
  then show "POST_reports toLowerCase req now app =
          (Error 409 ''A report with this title already exists'', app)"
    using POST_reports_conflict by blast
next
  assume "parseInt (param_id req') = Some i \<and> body req' = Some kvs' \<and> kvs' \<noteq> [] \<and>
        UpdateReportSchema kvs' = Some u \<and> u_title u = Some t \<and>
        getReport i (store app) = Some r \<and>
        (\<exists>x\<in>set (reports (store app)). report_id x \<noteq> i \<and>
           toLowerCase (title x) = toLowerCase t)"
  then show "PUT_report toLowerCase req' now app =
          (Error 409 ''Another report with this title already exists'', app)"
    using PUT_report_conflict by blast
qed

theorem titles_unique_ignoring_case_witness:
  "reachable asciiLowerCase twoLow
   \<and> map (\<lambda>r. asciiLowerCase (title r)) (reports (store twoLow)) = [''crash'', ''freeze'']
   \<and> POST_reports asciiLowerCase (createRequest ''FREEZE'' ''Again'' ''high'') 9 twoLow =
       (Error 409 ''A report with this title already exists'', twoLow)
   \<and> PUT_report asciiLowerCase (putRequest ''1'' Admin [(''title'', JStr ''freeZE'')]) 9 twoLow =
       (Error 409 ''Another report with this title already exists'', twoLow)"
proof -
  let ?kvs = "[(''title'', JStr ''FREEZE''), (''description'', JStr ''Again''),
      (''severity'', JStr ''high'')]"
  let ?d = "\<lparr>n_title = ''FREEZE'', n_description = ''Again'', n_severity = High\<rparr>"
  let ?kvs' = "[(''title'', JStr ''freeZE'')]"
  let ?u = "\<lparr>u_title = Some ''freeZE'', u_description = None, u_severity = None\<rparr>"
  let ?r = "\<lparr>report_id = 1, title = ''Crash'', description = ''It crashes'',
      severity = Low, createdAt = 5, updatedAt = 5, entries = [], attachments = []\<rparr>"
  have c: "body (createRequest ''FREEZE'' ''Again'' ''high'') = Some ?kvs
      \<and> NewReportSchema ?kvs = Some ?d
      \<and> (\<exists>r\<in>set (reports (store twoLow)). asciiLowerCase (title r) = asciiLowerCase (n_title ?d))"
    by (simp add: createRequest_def schema_defs twoLow_eq asciiLowerCase_def lower_char_def)
  have p: "parseInt (param_id (putRequest ''1'' Admin ?kvs')) = Some 1
      \<and> body (putRequest ''1'' Admin ?kvs') = Some ?kvs' \<and> ?kvs' \<noteq> []
      \<and> UpdateReportSchema ?kvs' = Some ?u \<and> u_title ?u = Some ''freeZE''
      \<and> getReport 1 (store twoLow) = Some ?r
      \<and> (\<exists>x\<in>set (reports (store twoLow)). report_id x \<noteq> 1 \<and>
           asciiLowerCase (title x) = asciiLowerCase ''freeZE'')"
    by (simp add: putRequest_def parse_defs schema_defs twoLow_eq getReport_def asciiLowerCase_def
        lower_char_def)
  from titles_unique_ignoring_case [where toLowerCase = asciiLowerCase and app = twoLow
      and req = "createRequest ''FREEZE'' ''Again'' ''high''" and kvs = ?kvs and d = ?d
      and now = 9 and req' = "putRequest ''1'' Admin ?kvs'" and i = 1 and kvs' = ?kvs'
      and u = ?u and t = "''freeZE''" and r = ?r]
    reachable_twoLow c p
  show ?thesis by (simp add: twoLow_eq asciiLowerCase_def lower_char_def)
qed

section \<open>Pagination of the entries\<close>

text \<open>
  C8. The defaults are as claimed: a valid \<^verbatim>\<open>page\<close> alone gets a page size of 10 and a valid
  \<^verbatim>\<open>pageSize\<close> alone gets page 1; a negative value is answered with 400. But a value that
  is not a number, or that is 0, is falsy in the tests of lines 71 to 73 and never reaches
  the check of line 74: \<^verbatim>\<open>page=abc\<close> is ignored, \<^verbatim>\<open>page=0\<close> with a page size becomes page 1,
  and \<^verbatim>\<open>pageSize=x\<close> or \<^verbatim>\<open>pageSize=0\<close> with a page becomes a page size of 10. The handler
  answers 200 in each of these cases.
\<close>

theorem invalid_pagination_is_not_rejected:
  "paginate (parsedNum ''2'') Undefined threeEntries = Some (take 10 (drop 10 threeEntries))
   \<and> paginate Undefined (parsedNum ''2'') threeEntries = Some (take 2 threeEntries)
   \<and> paginate (parsedNum ''-1'') Undefined threeEntries = None
   \<and> paginate (parsedNum ''abc'') Undefined threeEntries = Some threeEntries
   \<and> paginate (parsedNum ''0'') (parsedNum ''2'') threeEntries = Some (take 2 threeEntries)
   \<and> paginate (parsedNum ''1'') (parsedNum ''x'') threeEntries = Some threeEntries
   \<and> paginate (parsedNum ''1'') (parsedNum ''0'') threeEntries = Some threeEntries
   \<and> status (GET_report (getRequest ''1'' [(''include'', ''entries''), (''page'', ''abc'')])
         oneLow) = 200
   \<and> status (GET_report (getRequest ''1''
         [(''include'', ''entries''), (''page'', ''0''), (''pageSize'', ''2'')]) oneLow) = 200
   \<and> status (GET_report (getRequest ''1''
         [(''include'', ''entries''), (''page'', ''1''), (''pageSize'', ''x'')]) oneLow) = 200
   \<and> GET_report (getRequest ''1'' [(''include'', ''entries''), (''page'', ''-1'')]) oneLow =
       Error 400 ''Invalid pagination parameters''"
  by (simp add: paginate_def parsedNum_def parse_defs threeEntries_def GET_report_def
      getRequest_def queryNum_def oneLow_eq getReport_def sortEntries_def)

section \<open>What getReport and getAllReports return\<close>

text \<open>The store of values used so far is what the heap holds: looking a report up by
  reference and reading it is \<open>getReport\<close> on the reports of the heap.\<close>

lemma find_map_filter_reportAt:
  "find (\<lambda>r. report_id r = i) (List.map_filter (reportAt h) as) =
   (case find (hasId h i) as of None \<Rightarrow> None | Some a \<Rightarrow> reportAt h a)"
  by (induction as) (auto simp: hasId_def split: option.splits)

lemma getReport_reportsOf:
  "getReport i \<lparr>reports = reportsOf h, nextId = n\<rparr> = lookupReport i h"
  by (simp add: getReport_def reportsOf_def lookupReport_def getReportRef_def
      find_map_filter_reportAt)

lemma getReportRef_Some:
  assumes "getReportRef i h = Some a"
  shows "a \<in> set (arrayOf h)" and "\<exists>r. reportAt h a = Some r \<and> report_id r = i"
  using assms by (auto simp: getReportRef_def find_Some_iff hasId_def split: option.splits)

lemma arrayOf_mutateReport:
  "reportAt h a = Some r \<Longrightarrow> a \<in> set (arrayOf h) \<Longrightarrow> arrayOf (mutateReport a f h) = arrayOf h"
  by (auto simp: arrayOf_def mutateReport_def reportAt_def split: option.splits obj.splits)

lemma reportAt_mutateReport:
  "reportAt h a = Some r \<Longrightarrow>
   reportAt (mutateReport a f h) b = (if b = a then Some (f r) else reportAt h b)"
  by (auto simp: mutateReport_def reportAt_def split: option.splits obj.splits)

lemma find_hasId_mutateReport:
  assumes "find (hasId h i) as = Some a" and "reportAt h a = Some r" and "report_id (f r) = i"
    and "\<And>b. reportAt h' b = (if b = a then Some (f r) else reportAt h b)"
  shows "find (hasId h' i) as = Some a"
  using assms(1)
proof (induction as)
  case Nil
  then show ?case by simp
next
  case (Cons b bs)
  show ?case
  proof (cases "b = a")
    case True
    then show ?thesis using assms(3,4) by (simp add: hasId_def)
  next
    case False
    with Cons.prems have nb: "\<not> hasId h i b" and rest: "find (hasId h i) bs = Some a"
      by (auto split: if_splits)
    from False nb assms(4) have "\<not> hasId h' i b" by (simp add: hasId_def)
    with Cons.IH [OF rest] show ?thesis by simp
  qed
qed

lemma lookupReport_mutateReport:
  assumes "getReportRef i h = Some a" and "reportAt h a = Some r" and "report_id (f r) = i"
  shows "lookupReport i (mutateReport a f h) = Some (f r)"
proof -
  from assms(1) have ain: "a \<in> set (arrayOf h)" by (rule getReportRef_Some)
  have arr: "arrayOf (mutateReport a f h) = arrayOf h"
    using assms(2) ain by (rule arrayOf_mutateReport)
  have at: "\<And>b. reportAt (mutateReport a f h) b = (if b = a then Some (f r) else reportAt h b)"
    using assms(2) by (rule reportAt_mutateReport)
  from assms(1) have "find (hasId h i) (arrayOf h) = Some a" by (simp add: getReportRef_def)
  then have "find (hasId (mutateReport a f h) i) (arrayOf h) = Some a"
    using assms(2,3) at by (rule find_hasId_mutateReport)
  then show ?thesis by (simp add: lookupReport_def getReportRef_def arr at)
qed

text \<open>
  C9, as amended. \<^verbatim>\<open>getReport\<close> returns a reference to the stored report itself, an
  element of the store's array, and \<^verbatim>\<open>getAllReports\<close> returns the reference to the store's
  own array: neither makes a copy. So an assignment to fields of the returned report
  (keeping its id) is what every later lookup of that id reads, and an assignment to the
  returned array replaces the reports of the store.
\<close>

theorem returned_references_alias_the_store:
  "(getReportRef i h = Some a \<longrightarrow>
      a \<in> set (arrayOf h)
      \<and> (\<exists>r. reportAt h a = Some r \<and> lookupReport i h = Some r
            \<and> (report_id (f r) = i \<longrightarrow> lookupReport i (mutateReport a f h) = Some (f r))))
   \<and> getAllReportsRef h = reportsRef h
   \<and> (cells h (reportsRef h) = Some (ArrayObj as) \<longrightarrow>
        arrayOf (mutateArray (getAllReportsRef h) g h) = g as)"
proof (intro conjI impI)
  assume g: "getReportRef i h = Some a"
  then show "a \<in> set (arrayOf h)" by (rule getReportRef_Some)
  from g obtain r where r: "reportAt h a = Some r" "report_id r = i"
    using getReportRef_Some(2) by blast
  from g r have "lookupReport i h = Some r" by (simp add: lookupReport_def)
  moreover have "report_id (f r) = i \<longrightarrow> lookupReport i (mutateReport a f h) = Some (f r)"
    using g r(1) by (auto intro: lookupReport_mutateReport)
  ultimately show "\<exists>r. reportAt h a = Some r \<and> lookupReport i h = Some r
      \<and> (report_id (f r) = i \<longrightarrow> lookupReport i (mutateReport a f h) = Some (f r))"
    using r(1) by blast
next
  show "getAllReportsRef h = reportsRef h" by (simp add: getAllReportsRef_def)
next
  assume "cells h (reportsRef h) = Some (ArrayObj as)"
  then show "arrayOf (mutateArray (getAllReportsRef h) g h) = g as"
    by (simp add: getAllReportsRef_def mutateArray_def arrayOf_def)
qed

lemmas heap_defs = oneLowHeap_def crashReport_def getReportRef_def arrayOf_def hasId_def
  reportAt_def lookupReport_def mutateReport_def mutateArray_def getAllReportsRef_def
  reportsOf_def

theorem returned_references_alias_the_store_witness:
  "getReportRef 1 oneLowHeap = Some 1
   \<and> lookupReport 1 (mutateReport 1 (\<lambda>r. r\<lparr>title := ''Overwritten''\<rparr>) oneLowHeap) =
       Some (crashReport\<lparr>title := ''Overwritten''\<rparr>)
   \<and> arrayOf (mutateArray (getAllReportsRef oneLowHeap) (\<lambda>as. []) oneLowHeap) = []"
proof -
  have g: "getReportRef 1 oneLowHeap = Some 1" by (simp add: heap_defs)
  have c: "cells oneLowHeap (reportsRef oneLowHeap) = Some (ArrayObj [1])"
    by (simp add: oneLowHeap_def)
  have at: "reportAt oneLowHeap 1 = Some crashReport" by (simp add: oneLowHeap_def reportAt_def)
  have rid: "report_id (crashReport\<lparr>title := ''Overwritten''\<rparr>) = 1"
    by (simp add: crashReport_def)
  from returned_references_alias_the_store [where i = 1 and h = oneLowHeap and a = 1
      and f = "\<lambda>r. r\<lparr>title := ''Overwritten''\<rparr>" and as = "[1]" and g = "\<lambda>as. []"] g c at rid
  show ?thesis by (simp add: getAllReportsRef_def)
qed

text \<open>The claim as stated fails: after the caller's assignments through the returned
  references the store reads another title, and then no report at all.\<close>

theorem returned_references_alias_the_store_counterexample:
  "reportsOf oneLowHeap = [crashReport]
   \<and> reportsOf (mutateReport (the (getReportRef 1 oneLowHeap))
         (\<lambda>r. r\<lparr>title := ''Overwritten''\<rparr>) oneLowHeap) =
       [crashReport\<lparr>title := ''Overwritten''\<rparr>]
   \<and> map_option title (lookupReport 1 (mutateReport (the (getReportRef 1 oneLowHeap))
         (\<lambda>r. r\<lparr>title := ''Overwritten''\<rparr>) oneLowHeap)) = Some ''Overwritten''
   \<and> reportsOf (mutateArray (getAllReportsRef oneLowHeap) (\<lambda>as. []) oneLowHeap) = []
   \<and> lookupReport 1 (mutateArray (getAllReportsRef oneLowHeap) (\<lambda>as. []) oneLowHeap) = None"
  by (simp add: heap_defs)

section \<open>The empty update payload\<close>

text \<open>
  C10. An update request whose body is absent or has no keys is answered with status
  400 and changes nothing, whatever the state and the caller are: no report is looked up
  before. When the id of the path is a number the answer is the error
  \<^verbatim>\<open>No update data provided\<close>, also for an id that no report has.
\<close>

theorem PUT_empty_body_is_400:
  assumes "body req = None \<or> body req = Some []"
  shows "status (fst (PUT_report toLowerCase req now app)) = 400
         \<and> snd (PUT_report toLowerCase req now app) = app
         \<and> (parseInt (param_id req) \<noteq> None \<longrightarrow>
              fst (PUT_report toLowerCase req now app) = Error 400 ''No update data provided'')"
  using assms by (auto simp: PUT_report_def split: option.splits)

theorem PUT_empty_body_is_400_witness:
  "body emptyPut = Some []
   \<and> getReport 42 (store initialApp) = None
   \<and> PUT_report asciiLowerCase emptyPut 0 initialApp = (Error 400 ''No update data provided'', initialApp)"
  using PUT_empty_body_is_400 [where req = emptyPut and toLowerCase = asciiLowerCase
      and now = 0 and app = initialApp]
  by (simp add: emptyPut_def initialApp_def getReport_def parse_defs prod_eq_iff)

end
